theory Spec2Isabelle
  imports Main
begin

section \<open>Python values, exceptions and the observable process state\<close>

text \<open>
  The two scripts \<^verbatim>\<open>train_seed.py\<close> and \<^verbatim>\<open>train_colab.py\<close> only have effects: they seed
  random-number generators, write log lines, create directories and leave the process.
  The embedding threads an explicit \<open>world\<close> through every function and returns raised
  exceptions as values.

  \<open>exn\<close> stands for the instances of Python's class \<open>Exception\<close>, which is what every
  \<^verbatim>\<open>except Exception\<close> of the source catches. \<open>SystemExit\<close> is not among them: it is
  the \<open>Exit\<close> outcome of \<open>main\<close>.
\<close>

datatype exn = ValueError | TypeError | OverflowError | AttributeError | ImportError
  | FileNotFoundError | FileExistsError | NotADirectoryError | IsADirectoryError
  | YAMLError | RuntimeError

text \<open>
  A finite float is \<open>m * 2 ^ e\<close> (every IEEE double has this form), so that \<open>int(x)\<close>
  and the truth value of \<open>x\<close> are exact.
\<close>

datatype pyfloat = Finite int int | Infinity bool | NaN

text \<open>The values \<^verbatim>\<open>yaml.safe_load\<close> builds from plain YAML.\<close>

datatype pyval = PNone | PBool bool | PInt int | PFloat pyfloat | PStr string
  | PList "pyval list" | PDict "(pyval \<times> pyval) list"

text \<open>
  The state of a pseudo-random generator, as far as seeding determines it: seeding with
  \<open>s\<close> puts the generator into the state that depends on \<open>s\<close> alone.
\<close>

datatype rng_state = Unseeded | Seeded int

datatype node = File string | Dir

datatype level = INFO | WARNING | ERROR

datatype logarg = AVal pyval | AExn exn

text \<open>
  The trace lists, in order, what the process did: import statements it executed, lines
  it printed, calls of the \<open>logging\<close> functions (format string and arguments, as the
  source passes them), and the library calls that returned normally.
\<close>

datatype event = Import string | ImportFrom string string | Print string
  | Log level string "logarg list"
  | RandomSeed int | NpSeed int | TorchManualSeed int | CudaManualSeedAll int
  | CudnnDeterministic bool | CudnnBenchmark bool
  | MakeDirs pyval | CallTrain pyval

record world =
  py_rng :: rng_state
  np_rng :: rng_state
  torch_rng :: rng_state
  cuda_rng :: rng_state
  cudnn_deterministic :: "bool option"
  cudnn_benchmark :: "bool option"
  fs :: "string list \<rightharpoonup> node"
  trace :: "event list"

definition emit :: "event \<Rightarrow> world \<Rightarrow> world" where
  "emit ev w = w\<lparr>trace := trace w @ [ev]\<rparr>"

datatype outcome = Returned | Exit int | Raised exn

section \<open>The libraries the scripts call\<close>

text \<open>
  The libraries are not part of the repository; they are parameters. A seeding call
  answers \<open>None\<close> when it returns and \<open>Some e\<close> when it raises \<open>e\<close>.
  \<^verbatim>\<open>random.seed\<close> of the standard library accepts every \<open>int\<close> and has no such answer.
\<close>

record torch_module =
  manual_seed :: "int \<Rightarrow> exn option"
  cuda_manual_seed_all :: "int \<Rightarrow> exn option"
  set_cudnn_deterministic :: "bool \<Rightarrow> exn option"
  set_cudnn_benchmark :: "bool \<Rightarrow> exn option"

record numpy_module =
  np_random_seed :: "int \<Rightarrow> exn option"

record yaml_module =
  safe_load :: "string \<Rightarrow> exn + pyval"

text \<open>What the name \<open>train\<close> can be bound to: \<open>None\<close>, a callable, or something else.\<close>

datatype pyobj = ObjNone | ObjFunction "pyval \<Rightarrow> world \<Rightarrow> outcome \<times> world" | ObjOther

record train_module =
  train_attr :: "pyobj option"

text \<open>
  The environment of the process: what each import statement finds, and the builtin
  \<open>int\<close> on strings.
\<close>

record environment =
  import_yaml :: "exn + yaml_module"
  import_torch :: "exn + torch_module"
  import_numpy :: "exn + numpy_module"
  train_seed_found :: bool
  from_train_import_train :: "exn + pyobj"
  import_train :: "exn + train_module"
  int_of_str :: "string \<Rightarrow> int option"

section \<open>train\_seed.py\<close>

text \<open>
  The globals of the module after its top-level code has run (lines 12 to 17):
  \<open>torch\<close> is the imported module, or \<open>None\<close> when the import raised.
\<close>

record train_seed_module =
  torch :: "torch_module option"
  np :: numpy_module

definition load_train_seed :: "environment \<Rightarrow> world \<Rightarrow> (exn + train_seed_module) \<times> world" where
  "load_train_seed env w =
     (let w1 = emit (Import ''random'') w;
          w2 = emit (Import ''torch'') w1;
          t = (case import_torch env of Inl e \<Rightarrow> None | Inr tm \<Rightarrow> Some tm);
          w3 = emit (Import ''numpy'') w2
      in case import_numpy env of
           Inl e \<Rightarrow> (Inl e, w3)
         | Inr n \<Rightarrow> (Inr \<lparr>torch = t, np = n\<rparr>, w3))"

text \<open>The body of the \<^verbatim>\<open>try\<close> of lines 29 to 34: the first call that raises ends it.\<close>

definition torch_steps :: "torch_module \<Rightarrow> int \<Rightarrow> world \<Rightarrow> exn option \<times> world" where
  "torch_steps t seed w =
     (case manual_seed t seed of
        Some e \<Rightarrow> (Some e, w)
      | None \<Rightarrow>
         (let w1 = emit (TorchManualSeed seed) (w\<lparr>torch_rng := Seeded seed\<rparr>) in
          case cuda_manual_seed_all t seed of
            Some e \<Rightarrow> (Some e, w1)
          | None \<Rightarrow>
             (let w2 = emit (CudaManualSeedAll seed) (w1\<lparr>cuda_rng := Seeded seed\<rparr>) in
              case set_cudnn_deterministic t True of
                Some e \<Rightarrow> (Some e, w2)
              | None \<Rightarrow>
                 (let w3 = emit (CudnnDeterministic True) (w2\<lparr>cudnn_deterministic := Some True\<rparr>) in
                  case set_cudnn_benchmark t False of
                    Some e \<Rightarrow> (Some e, w3)
                  | None \<Rightarrow>
                     (None, emit (CudnnBenchmark False) (w3\<lparr>cudnn_benchmark := Some False\<rparr>))))))"

text \<open>
  \<open>set_seed\<close>, lines 20 to 37. The two first calls are outside the \<^verbatim>\<open>try\<close>: an
  exception of \<open>np.random.seed\<close> leaves the function. The \<^verbatim>\<open>except Exception: pass\<close>
  drops whatever the torch steps raise and keeps what they did before.
\<close>

definition set_seed :: "train_seed_module \<Rightarrow> int \<Rightarrow> world \<Rightarrow> exn option \<times> world" where
  "set_seed m seed w =
     (let w1 = emit (RandomSeed seed) (w\<lparr>py_rng := Seeded seed\<rparr>) in
      case np_random_seed (np m) seed of
        Some e \<Rightarrow> (Some e, w1)
      | None \<Rightarrow>
         (let w2 = emit (NpSeed seed) (w1\<lparr>np_rng := Seeded seed\<rparr>) in
          case torch m of
            None \<Rightarrow> (None, w2)
          | Some t \<Rightarrow> (None, snd (torch_steps t seed w2))))"

section \<open>Builtins and the filesystem\<close>

text \<open>\<open>d.get(k, default)\<close>: only a mapping has the method.\<close>

definition py_get :: "pyval \<Rightarrow> pyval \<Rightarrow> pyval \<Rightarrow> exn + pyval" where
  "py_get d k dflt =
     (case d of
        PDict kvs \<Rightarrow> Inr (case map_of kvs k of None \<Rightarrow> dflt | Some v \<Rightarrow> v)
      | _ \<Rightarrow> Inl AttributeError)"

definition int_of_float :: "pyfloat \<Rightarrow> exn + int" where
  "int_of_float x =
     (case x of
        Finite m e \<Rightarrow>
          Inr (if 0 \<le> e then m * 2 ^ nat e else sgn m * (\<bar>m\<bar> div 2 ^ nat (- e)))
      | Infinity _ \<Rightarrow> Inl OverflowError
      | NaN \<Rightarrow> Inl ValueError)"

text \<open>The builtin \<open>int(x)\<close>; the parser of strings is the environment's.\<close>

definition py_int :: "environment \<Rightarrow> pyval \<Rightarrow> exn + int" where
  "py_int env x =
     (case x of
        PInt n \<Rightarrow> Inr n
      | PBool b \<Rightarrow> Inr (if b then 1 else 0)
      | PFloat f \<Rightarrow> int_of_float f
      | PStr s \<Rightarrow> (case int_of_str env s of None \<Rightarrow> Inl ValueError | Some n \<Rightarrow> Inr n)
      | _ \<Rightarrow> Inl TypeError)"

definition truthy :: "pyval \<Rightarrow> bool" where
  "truthy x =
     (case x of
        PNone \<Rightarrow> False
      | PBool b \<Rightarrow> b
      | PInt n \<Rightarrow> n \<noteq> 0
      | PFloat f \<Rightarrow> (case f of Finite m e \<Rightarrow> m \<noteq> 0 | _ \<Rightarrow> True)
      | PStr s \<Rightarrow> s \<noteq> []
      | PList xs \<Rightarrow> xs \<noteq> []
      | PDict kvs \<Rightarrow> kvs \<noteq> [])"

text \<open>
  A path names the list of its components: empty components and \<open>.\<close> are dropped, an
  absolute path starts with the component \<open>/\<close>. A relative path is relative to the
  working directory, which does not change. Symbolic links are not modelled, and \<open>..\<close>
  is a name like any other.
\<close>

fun split_on :: "char \<Rightarrow> string \<Rightarrow> string list" where
  "split_on c [] = [[]]"
| "split_on c (x # xs) =
     (if x = c then [] # split_on c xs
      else (case split_on c xs of [] \<Rightarrow> [[x]] | y # ys \<Rightarrow> (x # y) # ys))"

definition split_path :: "string \<Rightarrow> string list" where
  "split_path s =
     (if s \<noteq> [] \<and> hd s = CHR ''/'' then [''/''] else []) @
     filter (\<lambda>c. c \<noteq> [] \<and> c \<noteq> ''.'') (split_on CHR ''/'' s)"

text \<open>The working directory and the root always exist.\<close>

definition node_at :: "(string list \<rightharpoonup> node) \<Rightarrow> string list \<Rightarrow> node option" where
  "node_at f p = (if p = [] \<or> p = [''/''] then Some Dir else f p)"

text \<open>\<open>Path(p).exists()\<close>: true of a file and of a directory.\<close>

definition path_exists :: "world \<Rightarrow> string \<Rightarrow> bool" where
  "path_exists w p = (node_at (fs w) (split_path p) \<noteq> None)"

definition is_dir :: "world \<Rightarrow> string \<Rightarrow> bool" where
  "is_dir w p = (node_at (fs w) (split_path p) = Some Dir)"

fun prefixes_from :: "string list \<Rightarrow> string list \<Rightarrow> string list list" where
  "prefixes_from pre [] = []"
| "prefixes_from pre (c # cs) = (pre @ [c]) # prefixes_from (pre @ [c]) cs"

text \<open>
  \<open>os.makedirs(name, exist_ok=...)\<close> walks down the path and makes each directory that
  is missing. A regular file in the way raises; an existing leaf directory raises unless
  \<open>exist_ok\<close>.
\<close>

fun mkdir_chain :: "bool \<Rightarrow> (string list \<rightharpoonup> node) \<Rightarrow> string list list
    \<Rightarrow> exn option \<times> (string list \<rightharpoonup> node)" where
  "mkdir_chain exist_ok f [] = (None, f)"
| "mkdir_chain exist_ok f (p # ps) =
     (case node_at f p of
        None \<Rightarrow> mkdir_chain exist_ok (f(p \<mapsto> Dir)) ps
      | Some Dir \<Rightarrow>
          (if ps = [] \<and> \<not> exist_ok then (Some FileExistsError, f)
           else mkdir_chain exist_ok f ps)
      | Some (File t) \<Rightarrow> (Some (if ps = [] then FileExistsError else NotADirectoryError), f))"

definition os_makedirs :: "pyval \<Rightarrow> bool \<Rightarrow> world \<Rightarrow> exn option \<times> world" where
  "os_makedirs name exist_ok w =
     (case name of
        PStr s \<Rightarrow>
          (if s = [] then (Some FileNotFoundError, w)
           else (case mkdir_chain exist_ok (fs w) (prefixes_from [] (split_path s)) of
                   (None, f) \<Rightarrow> (None, emit (MakeDirs name) (w\<lparr>fs := f\<rparr>))
                 | (Some e, f) \<Rightarrow> (Some e, w\<lparr>fs := f\<rparr>)))
      | _ \<Rightarrow> (Some TypeError, w))"

text \<open>
  When can \<open>os.makedirs(s, exist_ok=True)\<close> succeed: the name is not empty and no
  regular file stands at the path or above it.
\<close>

definition is_file :: "node option \<Rightarrow> bool" where
  "is_file x = (case x of Some (File t) \<Rightarrow> True | _ \<Rightarrow> False)"

definition creatable :: "world \<Rightarrow> string \<Rightarrow> bool" where
  "creatable w s =
     (s \<noteq> [] \<and> list_all (\<lambda>p. \<not> is_file (node_at (fs w) p)) (prefixes_from [] (split_path s)))"

section \<open>train\_colab.py\<close>

text \<open>
  The name \<open>set_seed\<close> of the module is bound at load time (lines 24 to 28): to the
  function of \<^verbatim>\<open>train_seed\<close>, or to the fallback that only prints. The imports of
  the standard library (lines 12 to 15) always succeed and leave no entry in the trace.
\<close>

datatype seed_fn = FromTrainSeed train_seed_module | Fallback

record colab_module =
  yaml :: yaml_module
  set_seed_fn :: seed_fn

definition load_train_colab :: "environment \<Rightarrow> world \<Rightarrow> (exn + colab_module) \<times> world" where
  "load_train_colab env w =
     (let w1 = emit (Import ''yaml'') w in
      case import_yaml env of
        Inl e \<Rightarrow> (Inl e, emit (Print ''PyYAML is required. Install with: pip install pyyaml'') w1)
      | Inr y \<Rightarrow>
         (let w2 = emit (ImportFrom ''train_seed'' ''set_seed'') w1 in
          if \<not> train_seed_found env then (Inr \<lparr>yaml = y, set_seed_fn = Fallback\<rparr>, w2)
          else (case load_train_seed env w2 of
                  (Inl e, w3) \<Rightarrow> (Inr \<lparr>yaml = y, set_seed_fn = Fallback\<rparr>, w3)
                | (Inr m, w3) \<Rightarrow> (Inr \<lparr>yaml = y, set_seed_fn = FromTrainSeed m\<rparr>, w3))))"

definition call_set_seed :: "seed_fn \<Rightarrow> int \<Rightarrow> world \<Rightarrow> exn option \<times> world" where
  "call_set_seed f seed w =
     (case f of
        FromTrainSeed m \<Rightarrow> set_seed m seed w
      | Fallback \<Rightarrow>
          (None, emit (Print ''train_seed.set_seed not available; skipping seed setup'') w))"

text \<open>
  \<open>load_config\<close>, lines 31 to 33. \<open>open\<close> refuses the empty name, a directory, and a
  regular file named with a trailing \<open>/\<close> or \<open>/.\<close>.
\<close>

definition load_config :: "yaml_module \<Rightarrow> string \<Rightarrow> world \<Rightarrow> exn + pyval" where
  "load_config y path w =
     (if path = [] then Inl FileNotFoundError
      else (case node_at (fs w) (split_path path) of
              None \<Rightarrow> Inl FileNotFoundError
            | Some Dir \<Rightarrow> Inl IsADirectoryError
            | Some (File text) \<Rightarrow>
                (if last (split_on CHR ''/'' path) \<in> {[], ''.''} then Inl NotADirectoryError
                 else safe_load y text)))"

text \<open>Lines 46 to 52 of \<open>main\<close>.\<close>

definition seed_step :: "environment \<Rightarrow> colab_module \<Rightarrow> pyval \<Rightarrow> world \<Rightarrow> exn option \<times> world" where
  "seed_step env cm config w =
     (case py_get config (PStr ''seed'') PNone of
        Inl e \<Rightarrow> (Some e, w)
      | Inr seed \<Rightarrow>
          (if seed = PNone then (None, w)
           else (case py_int env seed of
                   Inl e \<Rightarrow> (None, emit (Log WARNING ''Failed to set seed: %s'' [AExn e]) w)
                 | Inr n \<Rightarrow>
                     (case call_set_seed (set_seed_fn cm) n w of
                        (Some e, w1) \<Rightarrow>
                          (None, emit (Log WARNING ''Failed to set seed: %s'' [AExn e]) w1)
                      | (None, w1) \<Rightarrow>
                          (None, emit (Log INFO ''Set deterministic seed: %s'' [AVal seed]) w1)))))"

text \<open>Lines 55 to 57 of \<open>main\<close>.\<close>

definition resolve_paths :: "pyval \<Rightarrow> exn + (pyval \<times> pyval)" where
  "resolve_paths config =
     (case py_get config (PStr ''paths'') (PDict []) of
        Inl e \<Rightarrow> Inl e
      | Inr paths \<Rightarrow>
          (case py_get paths (PStr ''checkpoints'') (PStr ''checkpoints'') of
             Inl e \<Rightarrow> Inl e
           | Inr ckpt_dir \<Rightarrow>
               (case py_get paths (PStr ''logs'') (PStr ''logs'') of
                  Inl e \<Rightarrow> Inl e
                | Inr logs_dir \<Rightarrow> Inr (ckpt_dir, logs_dir))))"

text \<open>Lines 59 and 60 of \<open>main\<close>.\<close>

definition make_dirs :: "pyval \<Rightarrow> pyval \<Rightarrow> world \<Rightarrow> exn option \<times> world" where
  "make_dirs ckpt_dir logs_dir w =
     (case os_makedirs ckpt_dir True w of
        (Some e, w1) \<Rightarrow> (Some e, w1)
      | (None, w1) \<Rightarrow> os_makedirs logs_dir True w1)"

text \<open>Lines 63 to 65 of \<open>main\<close>.\<close>

definition resume_notice :: "pyval \<Rightarrow> pyval \<Rightarrow> world \<Rightarrow> exn option \<times> world" where
  "resume_notice config ckpt_dir w =
     (case py_get config (PStr ''resume'') (PBool False) of
        Inl e \<Rightarrow> (Some e, w)
      | Inr resume \<Rightarrow>
          (None,
           if truthy resume
           then emit (Log INFO
             ''Resume enabled - training will attempt to restore from checkpoints in %s''
             [AVal ckpt_dir]) w
           else w))"

text \<open>
  Lines 69 to 77 of \<open>main\<close>: the two import statements, the second one run only when
  the first raised, and \<open>getattr(_train_mod, "train", None)\<close>.
\<close>

definition resolve_train :: "environment \<Rightarrow> world \<Rightarrow> pyobj \<times> world" where
  "resolve_train env w =
     (let w1 = emit (ImportFrom ''train'' ''train'') w in
      case from_train_import_train env of
        Inr f \<Rightarrow> (f, w1)
      | Inl e \<Rightarrow>
         (let w2 = emit (Import ''train'') w1 in
          case import_train env of
            Inr tm \<Rightarrow> ((case train_attr tm of None \<Rightarrow> ObjNone | Some f \<Rightarrow> f), w2)
          | Inl e' \<Rightarrow> (ObjNone, w2)))"

text \<open>Lines 79 to 88 of \<open>main\<close>; the text of lines 80 to 82 first.\<close>

definition no_train_message :: string where
  "no_train_message =
     ''Could not import a `train(config)` function. Please ensure your training entrypoint exposes `train(config)`.''"

definition dispatch :: "pyobj \<Rightarrow> string \<Rightarrow> pyval \<Rightarrow> world \<Rightarrow> outcome \<times> world" where
  "dispatch train config_path config w =
     (case train of
        ObjNone \<Rightarrow>
          (Exit 3, emit (Log ERROR no_train_message []) w)
      | ObjFunction f \<Rightarrow>
          f config (emit (CallTrain config)
            (emit (Log INFO ''Starting training with config: %s'' [AVal (PStr config_path)]) w))
      | ObjOther \<Rightarrow>
          (Raised TypeError,
           emit (Log INFO ''Starting training with config: %s'' [AVal (PStr config_path)]) w))"

text \<open>Everything of \<open>main\<close> after the seeding step: lines 55 to 88.\<close>

definition directories_and_dispatch ::
    "environment \<Rightarrow> string \<Rightarrow> pyval \<Rightarrow> world \<Rightarrow> outcome \<times> world" where
  "directories_and_dispatch env config_path config w =
     (case resolve_paths config of
        Inl e \<Rightarrow> (Raised e, w)
      | Inr (ckpt_dir, logs_dir) \<Rightarrow>
          (case make_dirs ckpt_dir logs_dir w of
             (Some e, w1) \<Rightarrow> (Raised e, w1)
           | (None, w1) \<Rightarrow>
               (case resume_notice config ckpt_dir w1 of
                  (Some e, w2) \<Rightarrow> (Raised e, w2)
                | (None, w2) \<Rightarrow>
                    (case resolve_train env w2 of
                       (train, w3) \<Rightarrow> dispatch train config_path config w3))))"

text \<open>
  \<open>main\<close>, lines 36 to 88. \<open>logging.basicConfig\<close> (line 37) installs the handler
  and adds nothing to the trace; \<open>sys.exit(n)\<close> is the outcome \<open>Exit n\<close>.
\<close>

definition main :: "environment \<Rightarrow> colab_module \<Rightarrow> string \<Rightarrow> world \<Rightarrow> outcome \<times> world" where
  "main env cm config_path w =
     (if \<not> path_exists w config_path
      then (Exit 2,
            emit (Log ERROR ''Config file not found: %s'' [AVal (PStr config_path)]) w)
      else (case load_config (yaml cm) config_path w of
              Inl e \<Rightarrow> (Raised e, w)
            | Inr config \<Rightarrow>
                (case seed_step env cm config w of
                   (Some e, w1) \<Rightarrow> (Raised e, w1)
                 | (None, w1) \<Rightarrow> directories_and_dispatch env config_path config w1)))"

section \<open>Sample libraries, environments and worlds\<close>

text \<open>
  NumPy's \<open>np.random.seed\<close> takes a seed that fits 32 unsigned bits and raises
  \<open>ValueError\<close> (\<^verbatim>\<open>Seed must be between 0 and 2**32 - 1\<close>) on any other integer.
\<close>

definition numpy_legacy :: numpy_module where
  "numpy_legacy =
     \<lparr>np_random_seed = (\<lambda>s. if 0 \<le> s \<and> s \<le> 4294967295 then None else Some ValueError)\<rparr>"

text \<open>A torch whose CUDA seeding raises, and one whose every call returns.\<close>

definition torch_cuda_broken :: torch_module where
  "torch_cuda_broken =
     \<lparr>manual_seed = (\<lambda>s. None), cuda_manual_seed_all = (\<lambda>s. Some RuntimeError),
      set_cudnn_deterministic = (\<lambda>b. None), set_cudnn_benchmark = (\<lambda>b. None)\<rparr>"

definition torch_working :: torch_module where
  "torch_working =
     \<lparr>manual_seed = (\<lambda>s. None), cuda_manual_seed_all = (\<lambda>s. None),
      set_cudnn_deterministic = (\<lambda>b. None), set_cudnn_benchmark = (\<lambda>b. None)\<rparr>"

text \<open>
  A loader that knows six documents, by their text. The empty document loads to \<open>None\<close>,
  and \<^verbatim>\<open>paths:\<close> to a mapping whose \<open>paths\<close> value is \<open>None\<close>.
\<close>

definition yaml_sample :: yaml_module where
  "yaml_sample =
     \<lparr>safe_load = (\<lambda>text.
        if text = [] then Inr PNone
        else if text = ''paths:'' then Inr (PDict [(PStr ''paths'', PNone)])
        else if text = ''seed: -1'' then Inr (PDict [(PStr ''seed'', PInt (- 1))])
        else if text = ''seed: 42'' then Inr (PDict [(PStr ''seed'', PInt 42)])
        else if text = ''resume: true'' then Inr (PDict [(PStr ''resume'', PBool True)])
        else if text = ''paths: {logs: out/logs}''
          then Inr (PDict [(PStr ''paths'', PDict [(PStr ''logs'', PStr ''out/logs'')])])
        else Inl YAMLError)\<rparr>"

text \<open>
  An environment with PyYAML and NumPy, without torch and without a \<open>train\<close> module.
\<close>

definition env_sample :: environment where
  "env_sample =
     \<lparr>import_yaml = Inr yaml_sample, import_torch = Inl ImportError,
      import_numpy = Inr numpy_legacy, train_seed_found = True,
      from_train_import_train = Inl ImportError, import_train = Inl ImportError,
      int_of_str = (\<lambda>s. if s = ''42'' then Some 42 else None)\<rparr>"

text \<open>
  The module \<^verbatim>\<open>train_colab\<close> as it loads in \<open>env_sample\<close>, and as it loads where
  \<^verbatim>\<open>train_seed\<close> cannot be imported.
\<close>

definition colab_sample :: colab_module where
  "colab_sample =
     \<lparr>yaml = yaml_sample, set_seed_fn = FromTrainSeed \<lparr>torch = None, np = numpy_legacy\<rparr>\<rparr>"

definition colab_fallback :: colab_module where
  "colab_fallback = \<lparr>yaml = yaml_sample, set_seed_fn = Fallback\<rparr>"

definition world0 :: world where
  "world0 =
     \<lparr>py_rng = Unseeded, np_rng = Unseeded, torch_rng = Unseeded, cuda_rng = Unseeded,
      cudnn_deterministic = None, cudnn_benchmark = None, fs = Map.empty, trace = []\<rparr>"

text \<open>A world whose working directory holds the file \<open>cfg.yaml\<close> with the given text.\<close>

definition world_with_config :: "string \<Rightarrow> world" where
  "world_with_config text = world0\<lparr>fs := [[''cfg.yaml''] \<mapsto> File text]\<rparr>"

text \<open>A world whose filesystem holds the listed entries, and a \<open>train\<close> that returns at once.\<close>

definition world_with_entries :: "(string list \<times> node) list \<Rightarrow> world" where
  "world_with_entries es = world0\<lparr>fs := map_of es\<rparr>"

definition train_returns :: pyobj where
  "train_returns = ObjFunction (\<lambda>config w. (Returned, w))"

section \<open>What each step leaves untouched\<close>

lemma emit_simps:
  "py_rng (emit ev w) = py_rng w" "np_rng (emit ev w) = np_rng w"
  "fs (emit ev w) = fs w" "trace (emit ev w) = trace w @ [ev]"
  by (simp_all add: emit_def)

lemma torch_steps_frame:
  "py_rng (snd (torch_steps t s w)) = py_rng w \<and>
   np_rng (snd (torch_steps t s w)) = np_rng w \<and>
   fs (snd (torch_steps t s w)) = fs w"
  by (simp add: torch_steps_def Let_def emit_simps split: option.splits)

lemma torch_steps_trace:
  "\<exists>rest. trace (snd (torch_steps t s w)) = trace w @ rest"
  by (simp add: torch_steps_def Let_def emit_simps split: option.splits)

lemma set_seed_fs: "fs (snd (set_seed m s w)) = fs w"
  by (simp add: set_seed_def Let_def emit_simps torch_steps_frame split: option.splits)

lemma set_seed_py_rng: "py_rng (snd (set_seed m s w)) = Seeded s"
  by (simp add: set_seed_def Let_def emit_simps torch_steps_frame split: option.splits)

section \<open>Seeding: \<open>set_seed\<close>\<close>

text \<open>
  Claim C1, as amended. Whenever \<open>np.random.seed\<close> accepts the seed, \<open>set_seed\<close>
  returns without raising, whatever the torch steps do (torch absent, working, or raising
  at any of its four calls), and both \<open>random.seed\<close> and \<open>np.random.seed\<close> have been
  performed: they are the first two entries the call adds to the trace, and both
  generators are in the state of the seed.
\<close>

theorem set_seed_completes_when_numpy_accepts:
  assumes "np_random_seed (np m) seed = None"
  shows "fst (set_seed m seed w) = None \<and>
         py_rng (snd (set_seed m seed w)) = Seeded seed \<and>
         np_rng (snd (set_seed m seed w)) = Seeded seed \<and>
         (\<exists>rest. trace (snd (set_seed m seed w)) = trace w @ [RandomSeed seed, NpSeed seed] @ rest)"
proof (cases "torch m")
  case None
  with assms show ?thesis
    by (simp add: set_seed_def Let_def emit_simps)
next
  case (Some t)
  let ?w2 = "emit (NpSeed seed) (emit (RandomSeed seed) (w\<lparr>py_rng := Seeded seed\<rparr>)\<lparr>np_rng := Seeded seed\<rparr>)"
  have run: "set_seed m seed w = (None, snd (torch_steps t seed ?w2))"
    using assms Some by (simp add: set_seed_def Let_def)
  obtain rest where "trace (snd (torch_steps t seed ?w2)) = trace ?w2 @ rest"
    using torch_steps_trace by blast
  then have "trace (snd (set_seed m seed w)) = trace w @ [RandomSeed seed, NpSeed seed] @ rest"
    by (simp add: run emit_simps)
  then show ?thesis
    by (simp add: run torch_steps_frame emit_simps)
qed

text \<open>
  The theorem at seed 42, with NumPy and a torch whose CUDA seeding raises: the call
  returns, and the trace shows the two seedings and the one torch step that worked.
\<close>

theorem set_seed_completes_witness:
  "np_random_seed (np \<lparr>torch = Some torch_cuda_broken, np = numpy_legacy\<rparr>) 42 = None \<and>
   fst (set_seed \<lparr>torch = Some torch_cuda_broken, np = numpy_legacy\<rparr> 42 world0) = None \<and>
   np_rng (snd (set_seed \<lparr>torch = Some torch_cuda_broken, np = numpy_legacy\<rparr> 42 world0)) = Seeded 42 \<and>
   trace (snd (set_seed \<lparr>torch = Some torch_cuda_broken, np = numpy_legacy\<rparr> 42 world0)) =
     [RandomSeed 42, NpSeed 42, TorchManualSeed 42]"
proof -
  have h: "np_random_seed (np \<lparr>torch = Some torch_cuda_broken, np = numpy_legacy\<rparr>) 42 = None"
    by (simp add: numpy_legacy_def)
  have t: "trace (snd (set_seed \<lparr>torch = Some torch_cuda_broken, np = numpy_legacy\<rparr> 42 world0)) =
     [RandomSeed 42, NpSeed 42, TorchManualSeed 42]"
    by (simp add: set_seed_def torch_steps_def torch_cuda_broken_def numpy_legacy_def
        world0_def emit_def Let_def)
  show ?thesis
    using h t set_seed_completes_when_numpy_accepts [OF h, of world0] by simp
qed

text \<open>
  Claim C1 as stated fails at the seed \<open>-1\<close>, which NumPy refuses: \<open>set_seed\<close> raises
  \<open>ValueError\<close> after \<open>random.seed\<close> alone, and \<open>np.random.seed\<close> has not been performed.
\<close>

theorem set_seed_out_of_range_raises:
  "fst (set_seed \<lparr>torch = Some torch_working, np = numpy_legacy\<rparr> (- 1) world0) = Some ValueError \<and>
   np_rng (snd (set_seed \<lparr>torch = Some torch_working, np = numpy_legacy\<rparr> (- 1) world0)) = Unseeded \<and>
   trace (snd (set_seed \<lparr>torch = Some torch_working, np = numpy_legacy\<rparr> (- 1) world0)) =
     [RandomSeed (- 1)]"
  by (simp add: set_seed_def numpy_legacy_def world0_def emit_def Let_def)

lemma set_seed_np_rng:
  "np_random_seed (np m) s = None \<Longrightarrow>
     fst (set_seed m s w) = None \<and> np_rng (snd (set_seed m s w)) = Seeded s"
  by (simp add: set_seed_def Let_def emit_simps torch_steps_frame split: option.splits)

text \<open>
  Claim C4, as amended. Two calls of \<open>set_seed\<close> with the same seed \<open>s\<close>, from any two
  worlds \<open>w1\<close> and \<open>w2\<close>, leave the general-purpose generator in the same state, for
  every integer \<open>s\<close>. Whenever \<open>np.random.seed\<close> accepts \<open>s\<close>, both calls return, they
  leave the numerical-array generator in the same state too, and seeding again with \<open>s\<close>
  after a first call changes neither state. Equal states give equal sequences of draws.
\<close>

theorem set_seed_deterministic:
  "py_rng (snd (set_seed m s w1)) = py_rng (snd (set_seed m s w2)) \<and>
   (np_random_seed (np m) s = None \<longrightarrow>
      fst (set_seed m s w1) = None \<and> fst (set_seed m s w2) = None \<and>
      np_rng (snd (set_seed m s w1)) = np_rng (snd (set_seed m s w2)) \<and>
      np_rng (snd (set_seed m s (snd (set_seed m s w1)))) = np_rng (snd (set_seed m s w1)) \<and>
      py_rng (snd (set_seed m s (snd (set_seed m s w1)))) = py_rng (snd (set_seed m s w1)))"
proof -
  have py: "py_rng (snd (set_seed m s w1)) = py_rng (snd (set_seed m s w2))"
    by (simp add: set_seed_py_rng)
  have again: "py_rng (snd (set_seed m s (snd (set_seed m s w1)))) = py_rng (snd (set_seed m s w1))"
    by (simp add: set_seed_py_rng)
  show ?thesis
    using py again by (simp add: set_seed_np_rng)
qed

text \<open>
  The theorem at seed 7, from a fresh world and from one whose generators were seeded
  with 3 and 5.
\<close>

theorem set_seed_deterministic_witness:
  "np_random_seed (np \<lparr>torch = Some torch_working, np = numpy_legacy\<rparr>) 7 = None \<and>
   py_rng (snd (set_seed \<lparr>torch = Some torch_working, np = numpy_legacy\<rparr> 7 world0)) =
     py_rng (snd (set_seed \<lparr>torch = Some torch_working, np = numpy_legacy\<rparr> 7
       (world0\<lparr>py_rng := Seeded 3, np_rng := Seeded 5\<rparr>))) \<and>
   np_rng (snd (set_seed \<lparr>torch = Some torch_working, np = numpy_legacy\<rparr> 7 world0)) =
     np_rng (snd (set_seed \<lparr>torch = Some torch_working, np = numpy_legacy\<rparr> 7
       (world0\<lparr>py_rng := Seeded 3, np_rng := Seeded 5\<rparr>))) \<and>
   np_rng (snd (set_seed \<lparr>torch = Some torch_working, np = numpy_legacy\<rparr> 7 world0)) = Seeded 7"
proof -
  have h: "np_random_seed (np \<lparr>torch = Some torch_working, np = numpy_legacy\<rparr>) 7 = None"
    by (simp add: numpy_legacy_def)
  have v: "np_rng (snd (set_seed \<lparr>torch = Some torch_working, np = numpy_legacy\<rparr> 7 world0)) = Seeded 7"
    by (simp add: set_seed_def torch_steps_def torch_working_def numpy_legacy_def
        world0_def emit_def Let_def)
  show ?thesis
    using h v set_seed_deterministic [of "\<lparr>torch = Some torch_working, np = numpy_legacy\<rparr>" 7 world0
        "world0\<lparr>py_rng := Seeded 3, np_rng := Seeded 5\<rparr>"]
    by simp
qed

text \<open>
  Claim C4 as stated fails at the seed \<open>-1\<close>: both calls raise before
  \<open>np.random.seed\<close> takes effect, so the numerical-array generator stays in whatever
  state it had, \<open>Unseeded\<close> after the one call and \<open>Seeded 5\<close> after the other.
\<close>

theorem set_seed_refused_seed_keeps_numpy_state:
  "fst (set_seed \<lparr>torch = None, np = numpy_legacy\<rparr> (- 1) world0) = Some ValueError \<and>
   fst (set_seed \<lparr>torch = None, np = numpy_legacy\<rparr> (- 1) (world0\<lparr>np_rng := Seeded 5\<rparr>)) = Some ValueError \<and>
   np_rng (snd (set_seed \<lparr>torch = None, np = numpy_legacy\<rparr> (- 1) world0)) = Unseeded \<and>
   np_rng (snd (set_seed \<lparr>torch = None, np = numpy_legacy\<rparr> (- 1) (world0\<lparr>np_rng := Seeded 5\<rparr>))) = Seeded 5"
  by (simp add: set_seed_def numpy_legacy_def world0_def emit_def Let_def)

text \<open>
  Claim C9, as amended. When \<open>import torch\<close> raises, loading \<^verbatim>\<open>train_seed\<close> binds
  \<open>torch\<close> to \<open>None\<close>; the import is attempted there, once. A later call of \<open>set_seed\<close>
  reads that global only: it attempts no import and no torch step, and for every seed
  that \<open>np.random.seed\<close> accepts it returns without raising, having seeded the
  general-purpose and the numerical-array generator and changed nothing else.
\<close>

theorem torch_absence_fixed_at_load:
  assumes "import_torch env = Inl e" and "import_numpy env = Inr n"
  shows "load_train_seed env w =
           (Inr \<lparr>torch = None, np = n\<rparr>,
            w\<lparr>trace := trace w @ [Import ''random'', Import ''torch'', Import ''numpy'']\<rparr>) \<and>
         (np_random_seed n s = None \<longrightarrow>
            set_seed \<lparr>torch = None, np = n\<rparr> s w' =
              (None, w'\<lparr>py_rng := Seeded s, np_rng := Seeded s,
                        trace := trace w' @ [RandomSeed s, NpSeed s]\<rparr>))"
  using assms by (simp add: load_train_seed_def set_seed_def emit_def Let_def)

text \<open>The theorem in the sample environment, which has no torch, at seed 42.\<close>

theorem torch_absence_witness:
  "import_torch env_sample = Inl ImportError \<and> import_numpy env_sample = Inr numpy_legacy \<and>
   np_random_seed numpy_legacy 42 = None \<and>
   fst (load_train_seed env_sample world0) = Inr \<lparr>torch = None, np = numpy_legacy\<rparr> \<and>
   trace (snd (load_train_seed env_sample world0)) =
     [Import ''random'', Import ''torch'', Import ''numpy''] \<and>
   fst (set_seed \<lparr>torch = None, np = numpy_legacy\<rparr> 42 world0) = None \<and>
   trace (snd (set_seed \<lparr>torch = None, np = numpy_legacy\<rparr> 42 world0)) = [RandomSeed 42, NpSeed 42]"
proof -
  have h1: "import_torch env_sample = Inl ImportError"
    and h2: "import_numpy env_sample = Inr numpy_legacy"
    by (simp_all add: env_sample_def)
  have h3: "np_random_seed numpy_legacy 42 = None"
    by (simp add: numpy_legacy_def)
  show ?thesis
    using h1 h2 h3 torch_absence_fixed_at_load [OF h1 h2, of world0 42 world0]
    by (simp add: world0_def)
qed

text \<open>
  Claim C9 as stated fails at the seed \<open>2 ^ 32\<close>: with torch absent, \<open>set_seed\<close> raises
  \<open>ValueError\<close> and the numerical-array generator is not seeded.
\<close>

theorem torch_absent_large_seed_raises:
  "fst (load_train_seed env_sample world0) = Inr \<lparr>torch = None, np = numpy_legacy\<rparr> \<and>
   fst (set_seed \<lparr>torch = None, np = numpy_legacy\<rparr> 4294967296 world0) = Some ValueError \<and>
   np_rng (snd (set_seed \<lparr>torch = None, np = numpy_legacy\<rparr> 4294967296 world0)) = Unseeded"
  by (simp add: load_train_seed_def env_sample_def set_seed_def numpy_legacy_def world0_def
      emit_def Let_def)

section \<open>The bootstrap: \<open>main\<close>\<close>

text \<open>
  Claim C2, as amended. If nothing exists at \<open>config_path\<close> (\<open>Path(config_path).exists()\<close>
  is false; a directory counts as existing), \<open>main\<close> logs the error and leaves the process
  with exit code 2; the log line is all it adds to the world, so no directory is created.
\<close>

theorem main_missing_config_exits_2:
  assumes "\<not> path_exists w config_path"
  shows "main env cm config_path w =
           (Exit 2,
            w\<lparr>trace := trace w @
                 [Log ERROR ''Config file not found: %s'' [AVal (PStr config_path)]]\<rparr>) \<and>
         fs (snd (main env cm config_path w)) = fs w"
  using assms by (simp add: main_def emit_def)

text \<open>The theorem in a world that holds \<open>cfg.yaml\<close> only, asked for \<open>missing.yaml\<close>.\<close>

theorem main_missing_config_witness:
  "\<not> path_exists (world_with_config ''seed: 42'') ''missing.yaml'' \<and>
   fst (main env_sample colab_sample ''missing.yaml'' (world_with_config ''seed: 42'')) = Exit 2 \<and>
   trace (snd (main env_sample colab_sample ''missing.yaml'' (world_with_config ''seed: 42''))) =
     [Log ERROR ''Config file not found: %s'' [AVal (PStr ''missing.yaml'')]] \<and>
   fs (snd (main env_sample colab_sample ''missing.yaml'' (world_with_config ''seed: 42'')))
      [''checkpoints''] = None"
proof -
  have h: "\<not> path_exists (world_with_config ''seed: 42'') ''missing.yaml''"
    by (simp add: path_exists_def node_at_def split_path_def world_with_config_def world0_def)
  show ?thesis
    using h main_missing_config_exits_2 [OF h, of env_sample colab_sample]
    by (simp add: world_with_config_def world0_def)
qed

text \<open>
  Claim C2 as stated fails where \<open>config_path\<close> names a directory: that is not an
  existing file, yet \<open>exists()\<close> is true, \<open>open\<close> raises \<open>IsADirectoryError\<close>, and
  \<open>main\<close> ends with that exception, not with exit code 2, having logged nothing.
\<close>

theorem main_directory_as_config_raises:
  "node_at (fs (world0\<lparr>fs := [[''configs''] \<mapsto> Dir]\<rparr>)) (split_path ''configs'') = Some Dir \<and>
   fst (main env_sample colab_sample ''configs'' (world0\<lparr>fs := [[''configs''] \<mapsto> Dir]\<rparr>)) =
     Raised IsADirectoryError \<and>
   trace (snd (main env_sample colab_sample ''configs'' (world0\<lparr>fs := [[''configs''] \<mapsto> Dir]\<rparr>))) = []"
  by (simp add: main_def path_exists_def load_config_def node_at_def split_path_def world0_def)

text \<open>
  Claim C5, as amended. When the configuration has a \<open>seed\<close> key whose value is not
  null, \<open>main\<close> converts the value with \<open>int\<close> and calls \<open>set_seed\<close> with the result. The
  step never raises: an exception of the conversion or of \<open>set_seed\<close> is logged as a
  warning, a normal return as an information, and \<open>main\<close> goes on with directory creation
  and dispatch from the world the step left.
\<close>

theorem seed_step_is_never_fatal:
  assumes "map_of kvs (PStr ''seed'') = Some v" and "v \<noteq> PNone"
  shows "fst (seed_step env cm (PDict kvs) w) = None \<and>
     (\<forall>e. py_int env v = Inl e \<longrightarrow>
        snd (seed_step env cm (PDict kvs) w) =
          emit (Log WARNING ''Failed to set seed: %s'' [AExn e]) w) \<and>
     (\<forall>n e w1. py_int env v = Inr n \<and> call_set_seed (set_seed_fn cm) n w = (Some e, w1) \<longrightarrow>
        snd (seed_step env cm (PDict kvs) w) =
          emit (Log WARNING ''Failed to set seed: %s'' [AExn e]) w1) \<and>
     (\<forall>n w1. py_int env v = Inr n \<and> call_set_seed (set_seed_fn cm) n w = (None, w1) \<longrightarrow>
        snd (seed_step env cm (PDict kvs) w) =
          emit (Log INFO ''Set deterministic seed: %s'' [AVal v]) w1) \<and>
     (path_exists w config_path \<and> load_config (yaml cm) config_path w = Inr (PDict kvs) \<longrightarrow>
        main env cm config_path w =
          directories_and_dispatch env config_path (PDict kvs)
            (snd (seed_step env cm (PDict kvs) w)))"
proof -
  have step: "fst (seed_step env cm (PDict kvs) w) = None"
    using assms
    by (simp add: seed_step_def py_get_def split: sum.splits option.splits prod.splits)
  have cont: "main env cm config_path w =
          directories_and_dispatch env config_path (PDict kvs)
            (snd (seed_step env cm (PDict kvs) w))"
    if "path_exists w config_path" and "load_config (yaml cm) config_path w = Inr (PDict kvs)"
    using that step by (cases "seed_step env cm (PDict kvs) w") (simp add: main_def)
  show ?thesis
    using assms step cont by (simp add: seed_step_def py_get_def)
qed

text \<open>
  The theorem at \<open>seed: -1\<close>: the conversion gives \<open>-1\<close>, \<open>set_seed\<close> raises
  \<open>ValueError\<close>, the warning is logged and \<open>main\<close> goes on.
\<close>

theorem seed_step_never_fatal_witness:
  "map_of [(PStr ''seed'', PInt (- 1))] (PStr ''seed'') = Some (PInt (- 1)) \<and>
   PInt (- 1) \<noteq> PNone \<and>
   py_int env_sample (PInt (- 1)) = Inr (- 1) \<and>
   fst (call_set_seed (set_seed_fn colab_sample) (- 1) (world_with_config ''seed: -1'')) =
     Some ValueError \<and>
   fst (seed_step env_sample colab_sample (PDict [(PStr ''seed'', PInt (- 1))])
          (world_with_config ''seed: -1'')) = None \<and>
   trace (snd (seed_step env_sample colab_sample (PDict [(PStr ''seed'', PInt (- 1))])
          (world_with_config ''seed: -1''))) =
     [RandomSeed (- 1), Log WARNING ''Failed to set seed: %s'' [AExn ValueError]] \<and>
   main env_sample colab_sample ''cfg.yaml'' (world_with_config ''seed: -1'') =
     directories_and_dispatch env_sample ''cfg.yaml'' (PDict [(PStr ''seed'', PInt (- 1))])
       (snd (seed_step env_sample colab_sample (PDict [(PStr ''seed'', PInt (- 1))])
          (world_with_config ''seed: -1'')))"
proof -
  have h1: "map_of [(PStr ''seed'', PInt (- 1))] (PStr ''seed'') = Some (PInt (- 1))"
    and h2: "PInt (- 1) \<noteq> PNone"
    by simp_all
  have h3: "py_int env_sample (PInt (- 1)) = Inr (- 1)"
    by (simp add: py_int_def)
  have h4: "call_set_seed (set_seed_fn colab_sample) (- 1) (world_with_config ''seed: -1'') =
      (Some ValueError,
       emit (RandomSeed (- 1)) ((world_with_config ''seed: -1'')\<lparr>py_rng := Seeded (- 1)\<rparr>))"
    by (simp add: call_set_seed_def colab_sample_def set_seed_def numpy_legacy_def Let_def)
  have h5: "path_exists (world_with_config ''seed: -1'') ''cfg.yaml''"
    by (simp add: path_exists_def node_at_def split_path_def world_with_config_def world0_def)
  have h6: "load_config (yaml colab_sample) ''cfg.yaml'' (world_with_config ''seed: -1'') =
      Inr (PDict [(PStr ''seed'', PInt (- 1))])"
    by (simp add: load_config_def node_at_def split_path_def world_with_config_def world0_def
        colab_sample_def yaml_sample_def)
  show ?thesis
    using h1 h2 h3 h4 h5 h6
      seed_step_is_never_fatal [OF h1 h2, of env_sample colab_sample
        "world_with_config ''seed: -1''" "''cfg.yaml''"]
    by (simp add: emit_def world_with_config_def world0_def)
qed

text \<open>
  Claim C5 as stated fails at \<open>seed: null\<close>: the key is there, and \<open>main\<close> neither
  converts nor seeds nor logs (\<open>int(None)\<close> would have raised and been logged).
\<close>

theorem seed_step_null_seed_is_skipped:
  "map_of [(PStr ''seed'', PNone)] (PStr ''seed'') = Some PNone \<and>
   trace (snd (seed_step env_sample colab_sample (PDict [(PStr ''seed'', PNone)]) world0)) = [] \<and>
   py_rng (snd (seed_step env_sample colab_sample (PDict [(PStr ''seed'', PNone)]) world0)) = Unseeded"
  by (simp add: seed_step_def py_get_def world0_def)

text \<open>
  Claim C8. Entry-point resolution runs \<^verbatim>\<open>from train import train\<close> first and keeps what
  it binds; only when that raises does it run \<^verbatim>\<open>import train\<close> and take the module's
  \<open>train\<close> attribute, or \<open>None\<close> when the module has none; when the second import raises
  too, \<open>train\<close> is \<open>None\<close>. In each case the step yields a value and no exception.
\<close>

theorem resolve_train_two_steps:
  "(from_train_import_train env = Inr f \<longrightarrow>
      resolve_train env w = (f, emit (ImportFrom ''train'' ''train'') w)) \<and>
   (from_train_import_train env = Inl e \<and> import_train env = Inr tm \<longrightarrow>
      resolve_train env w =
        ((case train_attr tm of None \<Rightarrow> ObjNone | Some g \<Rightarrow> g),
         emit (Import ''train'') (emit (ImportFrom ''train'' ''train'') w))) \<and>
   (from_train_import_train env = Inl e \<and> import_train env = Inl e' \<longrightarrow>
      resolve_train env w =
        (ObjNone, emit (Import ''train'') (emit (ImportFrom ''train'' ''train'') w)))"
  by (simp add: resolve_train_def Let_def)

text \<open>
  The theorem in three environments: one where the function imports, one where only a
  module without the attribute imports, one where nothing imports.
\<close>

theorem resolve_train_witness:
  "from_train_import_train (env_sample\<lparr>from_train_import_train := Inr ObjOther\<rparr>) = Inr ObjOther \<and>
   resolve_train (env_sample\<lparr>from_train_import_train := Inr ObjOther\<rparr>) world0 =
     (ObjOther, emit (ImportFrom ''train'' ''train'') world0) \<and>
   from_train_import_train (env_sample\<lparr>import_train := Inr \<lparr>train_attr = None\<rparr>\<rparr>) = Inl ImportError \<and>
   import_train (env_sample\<lparr>import_train := Inr \<lparr>train_attr = None\<rparr>\<rparr>) = Inr \<lparr>train_attr = None\<rparr> \<and>
   fst (resolve_train (env_sample\<lparr>import_train := Inr \<lparr>train_attr = None\<rparr>\<rparr>) world0) = ObjNone \<and>
   from_train_import_train env_sample = Inl ImportError \<and>
   import_train env_sample = Inl ImportError \<and>
   fst (resolve_train env_sample world0) = ObjNone \<and>
   trace (snd (resolve_train env_sample world0)) = [ImportFrom ''train'' ''train'', Import ''train'']"
proof -
  have a: "from_train_import_train (env_sample\<lparr>from_train_import_train := Inr ObjOther\<rparr>) = Inr ObjOther"
    by simp
  have b: "from_train_import_train (env_sample\<lparr>import_train := Inr \<lparr>train_attr = None\<rparr>\<rparr>) = Inl ImportError"
      "import_train (env_sample\<lparr>import_train := Inr \<lparr>train_attr = None\<rparr>\<rparr>) = Inr \<lparr>train_attr = None\<rparr>"
    by (simp_all add: env_sample_def)
  have c: "from_train_import_train env_sample = Inl ImportError"
      "import_train env_sample = Inl ImportError"
    by (simp_all add: env_sample_def)
  show ?thesis
    using a b c
      resolve_train_two_steps [of "env_sample\<lparr>from_train_import_train := Inr ObjOther\<rparr>"
        ObjOther world0]
      resolve_train_two_steps [of "env_sample\<lparr>import_train := Inr \<lparr>train_attr = None\<rparr>\<rparr>"
        _ world0 ImportError "\<lparr>train_attr = None\<rparr>"]
      resolve_train_two_steps [of env_sample _ world0 ImportError _ ImportError]
    by (simp add: emit_def world0_def)
qed

text \<open>
  Claim C10, as amended. When \<^verbatim>\<open>train_seed\<close> cannot be imported (it is not found, or
  its own import of NumPy raises), loading \<^verbatim>\<open>train_colab\<close> binds \<open>set_seed\<close> to the
  fallback and prints nothing. With the fallback, a \<open>seed\<close> value that is not null and
  that \<open>int\<close> converts makes the seeding step print the fallback's line and log
  \<^verbatim>\<open>Set deterministic seed\<close>, and change nothing else: no generator is seeded.
\<close>

theorem fallback_logs_seed_without_seeding:
  assumes "import_yaml env = Inr y"
    and "\<not> train_seed_found env \<or> import_numpy env = Inl e"
    and "map_of kvs (PStr ''seed'') = Some v" and "v \<noteq> PNone" and "py_int env v = Inr n"
  shows "fst (load_train_colab env w) = Inr \<lparr>yaml = y, set_seed_fn = Fallback\<rparr> \<and>
     (\<exists>imports. trace (snd (load_train_colab env w)) = trace w @ imports \<and>
        list_all (\<lambda>ev. case ev of Import a \<Rightarrow> True | ImportFrom a b \<Rightarrow> True | _ \<Rightarrow> False) imports) \<and>
     seed_step env \<lparr>yaml = y, set_seed_fn = Fallback\<rparr> (PDict kvs) w' =
       (None,
        w'\<lparr>trace := trace w' @
          [Print ''train_seed.set_seed not available; skipping seed setup'',
           Log INFO ''Set deterministic seed: %s'' [AVal v]]\<rparr>)"
proof -
  have load: "fst (load_train_colab env w) = Inr \<lparr>yaml = y, set_seed_fn = Fallback\<rparr>"
    using assms(1,2)
    by (auto simp add: load_train_colab_def load_train_seed_def Let_def split: sum.splits)
  have tr: "trace (snd (load_train_colab env w)) =
      trace w @ (if train_seed_found env
        then [Import ''yaml'', ImportFrom ''train_seed'' ''set_seed'', Import ''random'',
              Import ''torch'', Import ''numpy'']
        else [Import ''yaml'', ImportFrom ''train_seed'' ''set_seed''])"
    using assms(1,2)
    by (auto simp add: load_train_colab_def load_train_seed_def Let_def emit_def split: sum.splits)
  have quiet: "\<exists>imports. trace (snd (load_train_colab env w)) = trace w @ imports \<and>
        list_all (\<lambda>ev. case ev of Import a \<Rightarrow> True | ImportFrom a b \<Rightarrow> True | _ \<Rightarrow> False) imports"
    unfolding tr by (rule exI [of _ "if train_seed_found env
        then [Import ''yaml'', ImportFrom ''train_seed'' ''set_seed'', Import ''random'',
              Import ''torch'', Import ''numpy'']
        else [Import ''yaml'', ImportFrom ''train_seed'' ''set_seed'']"]) simp
  have step: "seed_step env \<lparr>yaml = y, set_seed_fn = Fallback\<rparr> (PDict kvs) w' =
       (None,
        w'\<lparr>trace := trace w' @
          [Print ''train_seed.set_seed not available; skipping seed setup'',
           Log INFO ''Set deterministic seed: %s'' [AVal v]]\<rparr>)"
    using assms(3,4,5) by (simp add: seed_step_def py_get_def call_set_seed_def emit_def)
  show ?thesis
    using load quiet step by blast
qed

text \<open>The theorem where \<^verbatim>\<open>train_seed\<close> is not found, at \<open>seed: 42\<close>.\<close>

theorem fallback_logs_seed_witness:
  "import_yaml (env_sample\<lparr>train_seed_found := False\<rparr>) = Inr yaml_sample \<and>
   \<not> train_seed_found (env_sample\<lparr>train_seed_found := False\<rparr>) \<and>
   map_of [(PStr ''seed'', PInt 42)] (PStr ''seed'') = Some (PInt 42) \<and>
   PInt 42 \<noteq> PNone \<and>
   py_int (env_sample\<lparr>train_seed_found := False\<rparr>) (PInt 42) = Inr 42 \<and>
   fst (load_train_colab (env_sample\<lparr>train_seed_found := False\<rparr>) world0) = Inr colab_fallback \<and>
   trace (snd (seed_step (env_sample\<lparr>train_seed_found := False\<rparr>) colab_fallback
            (PDict [(PStr ''seed'', PInt 42)]) world0)) =
     [Print ''train_seed.set_seed not available; skipping seed setup'',
      Log INFO ''Set deterministic seed: %s'' [AVal (PInt 42)]] \<and>
   py_rng (snd (seed_step (env_sample\<lparr>train_seed_found := False\<rparr>) colab_fallback
            (PDict [(PStr ''seed'', PInt 42)]) world0)) = Unseeded \<and>
   np_rng (snd (seed_step (env_sample\<lparr>train_seed_found := False\<rparr>) colab_fallback
            (PDict [(PStr ''seed'', PInt 42)]) world0)) = Unseeded"
proof -
  have h1: "import_yaml (env_sample\<lparr>train_seed_found := False\<rparr>) = Inr yaml_sample"
    by (simp add: env_sample_def)
  have h2: "\<not> train_seed_found (env_sample\<lparr>train_seed_found := False\<rparr>)
      \<or> import_numpy (env_sample\<lparr>train_seed_found := False\<rparr>) = Inl ImportError"
    by simp
  have h3: "map_of [(PStr ''seed'', PInt 42)] (PStr ''seed'') = Some (PInt 42)"
    and h4: "PInt 42 \<noteq> PNone"
    by simp_all
  have h5: "py_int (env_sample\<lparr>train_seed_found := False\<rparr>) (PInt 42) = Inr 42"
    by (simp add: py_int_def)
  show ?thesis
    using h1 h3 h4 h5
      fallback_logs_seed_without_seeding [OF h1 h2 h3 h4 h5, of world0 world0]
    by (simp add: colab_fallback_def world0_def)
qed

text \<open>
  Claim C10 as stated fails at \<open>seed: abc\<close>: \<open>int\<close> raises \<open>ValueError\<close>, and \<open>main\<close>
  logs the warning \<^verbatim>\<open>Failed to set seed\<close>, not \<^verbatim>\<open>Set deterministic seed\<close>.
\<close>

theorem fallback_unconvertible_seed_logs_warning:
  "fst (load_train_colab (env_sample\<lparr>train_seed_found := False\<rparr>) world0) = Inr colab_fallback \<and>
   map_of [(PStr ''seed'', PStr ''abc'')] (PStr ''seed'') = Some (PStr ''abc'') \<and>
   trace (snd (seed_step (env_sample\<lparr>train_seed_found := False\<rparr>) colab_fallback
            (PDict [(PStr ''seed'', PStr ''abc'')]) world0)) =
     [Log WARNING ''Failed to set seed: %s'' [AExn ValueError]]"
  by (simp add: load_train_colab_def env_sample_def colab_fallback_def seed_step_def
      py_get_def py_int_def emit_def world0_def Let_def)

section \<open>Directories and dispatch\<close>

text \<open>
  What \<open>os.makedirs\<close> does to the filesystem: where no regular file is in the way it
  returns, every directory on the path exists afterwards, and whatever existed before is
  still there.
\<close>

lemma node_at_upd_dir:
  "node_at f p = None \<Longrightarrow> node_at (f(p \<mapsto> Dir)) q = (if q = p then Some Dir else node_at f q)"
  by (auto simp add: node_at_def split: if_splits)

lemma mkdir_chain_ok:
  "list_all (\<lambda>p. \<not> is_file (node_at f p)) ps \<Longrightarrow>
     \<exists>f'. mkdir_chain True f ps = (None, f') \<and>
          (\<forall>p \<in> set ps. node_at f' p = Some Dir) \<and>
          (\<forall>q. node_at f q \<noteq> None \<longrightarrow> node_at f' q = node_at f q) \<and>
          (\<forall>q. node_at f' q \<noteq> node_at f q \<longrightarrow> node_at f' q = Some Dir)"
proof (induction ps arbitrary: f)
  case Nil
  then show ?case by simp
next
  case (Cons p ps)
  show ?case
  proof (cases "node_at f p")
    case None
    let ?g = "f(p \<mapsto> Dir)"
    have g: "node_at ?g q = (if q = p then Some Dir else node_at f q)" for q
      using None by (rule node_at_upd_dir)
    have "list_all (\<lambda>p. \<not> is_file (node_at ?g p)) ps"
      using Cons.prems by (simp add: g is_file_def list_all_iff)
    from Cons.IH [OF this] obtain f' where f':
      "mkdir_chain True ?g ps = (None, f')"
      "\<forall>p \<in> set ps. node_at f' p = Some Dir"
      "\<forall>q. node_at ?g q \<noteq> None \<longrightarrow> node_at f' q = node_at ?g q"
      "\<forall>q. node_at f' q \<noteq> node_at ?g q \<longrightarrow> node_at f' q = Some Dir"
      by blast
    have run: "mkdir_chain True f (p # ps) = (None, f')"
      using None f'(1) by simp
    have here: "node_at f' p = Some Dir"
      using f'(3) g by simp
    have keep: "\<forall>q. node_at f q \<noteq> None \<longrightarrow> node_at f' q = node_at f q"
      using f'(3) g None by auto
    have new: "\<forall>q. node_at f' q \<noteq> node_at f q \<longrightarrow> node_at f' q = Some Dir"
      using f'(4) g here by metis
    show ?thesis
      using run here f'(2) keep new by auto
  next
    case (Some x)
    then have dir: "node_at f p = Some Dir"
      using Cons.prems by (cases x) (simp_all add: is_file_def)
    have "list_all (\<lambda>p. \<not> is_file (node_at f p)) ps"
      using Cons.prems by simp
    from Cons.IH [OF this] obtain f' where f':
      "mkdir_chain True f ps = (None, f')"
      "\<forall>p \<in> set ps. node_at f' p = Some Dir"
      "\<forall>q. node_at f q \<noteq> None \<longrightarrow> node_at f' q = node_at f q"
      "\<forall>q. node_at f' q \<noteq> node_at f q \<longrightarrow> node_at f' q = Some Dir"
      by blast
    have run: "mkdir_chain True f (p # ps) = (None, f')"
      using dir f'(1) by simp
    have here: "node_at f' p = Some Dir"
      using f'(3) dir by simp
    show ?thesis
      using run here f'(2,3,4) by auto
  qed
qed

lemma mkdir_chain_existing:
  "\<forall>p \<in> set ps. node_at f p = Some Dir \<Longrightarrow> mkdir_chain True f ps = (None, f)"
  by (induction ps) simp_all

lemma last_prefix: "cs \<noteq> [] \<Longrightarrow> pre @ cs \<in> set (prefixes_from pre cs)"
proof (induction cs arbitrary: pre)
  case Nil
  then show ?case by simp
next
  case (Cons c cs)
  show ?case
  proof (cases cs)
    case Nil
    then show ?thesis by simp
  next
    case (Cons d ds)
    then have "(pre @ [c]) @ cs \<in> set (prefixes_from (pre @ [c]) cs)"
      using Cons.IH by blast
    then show ?thesis by simp
  qed
qed

lemma os_makedirs_creatable:
  assumes "creatable w s"
  shows "\<exists>w'. os_makedirs (PStr s) True w = (None, w') \<and> is_dir w' s \<and>
           trace w' = trace w @ [MakeDirs (PStr s)] \<and>
           (\<forall>q. node_at (fs w) q \<noteq> None \<longrightarrow> node_at (fs w') q = node_at (fs w) q) \<and>
           (\<forall>q. node_at (fs w') q \<noteq> node_at (fs w) q \<longrightarrow> node_at (fs w') q = Some Dir)"
proof -
  let ?ps = "prefixes_from [] (split_path s)"
  from assms have ne: "s \<noteq> []" and free: "list_all (\<lambda>p. \<not> is_file (node_at (fs w) p)) ?ps"
    by (simp_all add: creatable_def)
  from mkdir_chain_ok [OF free] obtain f' where f':
    "mkdir_chain True (fs w) ?ps = (None, f')"
    "\<forall>p \<in> set ?ps. node_at f' p = Some Dir"
    "\<forall>q. node_at (fs w) q \<noteq> None \<longrightarrow> node_at f' q = node_at (fs w) q"
    "\<forall>q. node_at f' q \<noteq> node_at (fs w) q \<longrightarrow> node_at f' q = Some Dir"
    by blast
  let ?w' = "emit (MakeDirs (PStr s)) (w\<lparr>fs := f'\<rparr>)"
  have run: "os_makedirs (PStr s) True w = (None, ?w')"
    using ne f'(1) by (simp add: os_makedirs_def)
  have leaf: "node_at f' (split_path s) = Some Dir"
  proof (cases "split_path s = []")
    case True
    then show ?thesis by (simp add: node_at_def)
  next
    case False
    then have "[] @ split_path s \<in> set ?ps" by (rule last_prefix)
    then show ?thesis using f'(2) by simp
  qed
  show ?thesis
    using run leaf f'(3,4) by (simp add: is_dir_def emit_def)
qed

lemma make_dirs_creatable:
  assumes "creatable w c" and "creatable w l"
  shows "\<exists>w'. make_dirs (PStr c) (PStr l) w = (None, w') \<and> is_dir w' c \<and> is_dir w' l \<and>
           trace w' = trace w @ [MakeDirs (PStr c), MakeDirs (PStr l)]"
proof -
  from os_makedirs_creatable [OF assms(1)] obtain w1 where w1:
    "os_makedirs (PStr c) True w = (None, w1)" "is_dir w1 c"
    "trace w1 = trace w @ [MakeDirs (PStr c)]"
    "\<forall>q. node_at (fs w1) q \<noteq> node_at (fs w) q \<longrightarrow> node_at (fs w1) q = Some Dir"
    by blast
  have "list_all (\<lambda>p. \<not> is_file (node_at (fs w1) p)) (prefixes_from [] (split_path l))"
    unfolding list_all_iff
  proof
    fix p assume "p \<in> set (prefixes_from [] (split_path l))"
    then have "\<not> is_file (node_at (fs w) p)"
      using assms(2) by (simp add: creatable_def list_all_iff)
    then show "\<not> is_file (node_at (fs w1) p)"
    proof (cases "node_at (fs w1) p = node_at (fs w) p")
      case True
      with \<open>\<not> is_file (node_at (fs w) p)\<close> show ?thesis by simp
    next
      case False
      then have "node_at (fs w1) p = Some Dir" using w1(4) by blast
      then show ?thesis by (simp add: is_file_def)
    qed
  qed
  then have "creatable w1 l"
    using assms(2) by (simp add: creatable_def)
  from os_makedirs_creatable [OF this] obtain w2 where w2:
    "os_makedirs (PStr l) True w1 = (None, w2)" "is_dir w2 l"
    "trace w2 = trace w1 @ [MakeDirs (PStr l)]"
    "\<forall>q. node_at (fs w1) q \<noteq> None \<longrightarrow> node_at (fs w2) q = node_at (fs w1) q"
    by blast
  have "make_dirs (PStr c) (PStr l) w = (None, w2)"
    using w1(1) w2(1) by (simp add: make_dirs_def)
  moreover have "is_dir w2 c"
    using w1(2) w2(4) by (simp add: is_dir_def)
  ultimately show ?thesis
    using w2(2,3) w1(3) by simp
qed

lemma call_set_seed_fs: "fs (snd (call_set_seed f n w)) = fs w"
  by (cases f) (simp_all add: call_set_seed_def set_seed_fs emit_simps)

lemma seed_step_fs: "fs (snd (seed_step env cm config w)) = fs w"
proof (cases "py_get config (PStr ''seed'') PNone")
  case (Inl e)
  then show ?thesis by (simp add: seed_step_def)
next
  case (Inr seed)
  show ?thesis
  proof (cases "seed = PNone")
    case True
    with Inr show ?thesis by (simp add: seed_step_def)
  next
    case False
    show ?thesis
    proof (cases "py_int env seed")
      case (Inl e)
      with Inr False show ?thesis by (simp add: seed_step_def emit_simps)
    next
      case (Inr n)
      obtain r w1 where call: "call_set_seed (set_seed_fn cm) n w = (r, w1)"
        by (cases "call_set_seed (set_seed_fn cm) n w")
      then have "fs w1 = fs w"
        using call_set_seed_fs [of "set_seed_fn cm" n w] by simp
      then show ?thesis
        using \<open>py_get config (PStr ''seed'') PNone = Inr seed\<close> False Inr call
        by (cases r) (simp_all add: seed_step_def emit_simps)
    qed
  qed
qed

lemma seed_step_dict: "fst (seed_step env cm (PDict kvs) w) = None"
  by (simp add: seed_step_def py_get_def split: sum.splits option.splits prod.splits)

lemma load_config_exists: "load_config y p w = Inr config \<Longrightarrow> path_exists w p"
  by (auto simp add: load_config_def path_exists_def split: if_splits option.splits)

text \<open>
  Claim C3. Take a valid configuration: the file loads to a mapping whose two paths are
  strings that \<open>os.makedirs\<close> can create. If \<^verbatim>\<open>from train import train\<close> raises, and
  \<^verbatim>\<open>import train\<close> raises too or gives a module without a \<open>train\<close> attribute, then
  \<open>main\<close> leaves the process with exit code 3. Both directories exist in the final
  world, and the trace shows the order: after the seeding step come the two
  \<open>os.makedirs\<close> calls, then the resume notice if any, then the two import attempts, and
  the error line last.
\<close>

theorem main_no_train_exits_3_after_directories:
  assumes loads: "load_config (yaml cm) config_path w = Inr (PDict kvs)"
    and paths: "resolve_paths (PDict kvs) = Inr (PStr c, PStr l)"
    and free: "creatable w c" "creatable w l"
    and no_function: "from_train_import_train env = Inl e1"
    and no_attribute: "import_train env = Inl e2 \<or>
          (\<exists>tm. import_train env = Inr tm \<and> train_attr tm = None)"
  shows "\<exists>w'. main env cm config_path w = (Exit 3, w') \<and> is_dir w' c \<and> is_dir w' l \<and>
     trace w' =
       trace (snd (seed_step env cm (PDict kvs) w)) @
       [MakeDirs (PStr c), MakeDirs (PStr l)] @
       (if truthy (case map_of kvs (PStr ''resume'') of None \<Rightarrow> PBool False | Some r \<Rightarrow> r)
        then [Log INFO
           ''Resume enabled - training will attempt to restore from checkpoints in %s''
           [AVal (PStr c)]]
        else []) @
       [ImportFrom ''train'' ''train'', Import ''train'', Log ERROR no_train_message []]"
proof -
  let ?notice = "if truthy (case map_of kvs (PStr ''resume'') of None \<Rightarrow> PBool False | Some r \<Rightarrow> r)
        then [Log INFO
           ''Resume enabled - training will attempt to restore from checkpoints in %s''
           [AVal (PStr c)]]
        else []"
  have ex: "path_exists w config_path"
    using loads by (rule load_config_exists)
  obtain ws where seed: "seed_step env cm (PDict kvs) w = (None, ws)"
    using seed_step_dict [of env cm kvs w] by (cases "seed_step env cm (PDict kvs) w") simp
  have ws: "snd (seed_step env cm (PDict kvs) w) = ws"
    by (simp add: seed)
  have m: "main env cm config_path w = directories_and_dispatch env config_path (PDict kvs) ws"
    using ex loads seed by (simp add: main_def)
  have "fs ws = fs w"
    using seed_step_fs [of env cm "PDict kvs" w] by (simp add: ws)
  then have "creatable ws c" and "creatable ws l"
    using free by (simp_all add: creatable_def)
  from make_dirs_creatable [OF this] obtain w1 where w1:
    "make_dirs (PStr c) (PStr l) ws = (None, w1)" "is_dir w1 c" "is_dir w1 l"
    "trace w1 = trace ws @ [MakeDirs (PStr c), MakeDirs (PStr l)]"
    by blast
  define w2 where "w2 =
     (if truthy (case map_of kvs (PStr ''resume'') of None \<Rightarrow> PBool False | Some r \<Rightarrow> r)
      then emit (Log INFO
           ''Resume enabled - training will attempt to restore from checkpoints in %s''
           [AVal (PStr c)]) w1
      else w1)"
  have w2: "resume_notice (PDict kvs) (PStr c) w1 = (None, w2)"
    by (simp add: resume_notice_def py_get_def w2_def)
  have w2_fs: "fs w2 = fs w1" and w2_trace: "trace w2 = trace w1 @ ?notice"
    by (simp_all add: w2_def emit_simps)
  define w3 where "w3 = emit (Import ''train'') (emit (ImportFrom ''train'' ''train'') w2)"
  have w3: "resolve_train env w2 = (ObjNone, w3)"
    using no_function no_attribute
    by (auto simp add: resolve_train_def Let_def w3_def)
  have w3_fs: "fs w3 = fs w2"
    and w3_trace: "trace w3 = trace w2 @ [ImportFrom ''train'' ''train'', Import ''train'']"
    by (simp_all add: w3_def emit_simps)
  define w4 where "w4 = emit (Log ERROR no_train_message []) w3"
  have "directories_and_dispatch env config_path (PDict kvs) ws = (Exit 3, w4)"
    using paths w1(1) w2 w3 by (simp add: directories_and_dispatch_def dispatch_def w4_def)
  then have run: "main env cm config_path w = (Exit 3, w4)"
    using m by simp
  have dirs: "is_dir w4 c" "is_dir w4 l"
    using w1(2,3) w2_fs w3_fs by (simp_all add: is_dir_def w4_def emit_simps)
  have tr: "trace w4 = trace ws @ [MakeDirs (PStr c), MakeDirs (PStr l)] @ ?notice @
       [ImportFrom ''train'' ''train'', Import ''train'', Log ERROR no_train_message []]"
    using w1(4) w2_trace w3_trace by (simp add: w4_def emit_simps)
  have "main env cm config_path w = (Exit 3, w4) \<and> is_dir w4 c \<and> is_dir w4 l \<and>
     trace w4 = trace ws @ [MakeDirs (PStr c), MakeDirs (PStr l)] @ ?notice @
       [ImportFrom ''train'' ''train'', Import ''train'', Log ERROR no_train_message []]"
    using run dirs tr by simp
  then show ?thesis
    unfolding ws by (rule exI [of _ w4])
qed

text \<open>
  The theorem at the configuration \<open>seed: 42\<close> in the sample environment, which has no
  \<open>train\<close> module.
\<close>

theorem main_no_train_witness:
  "load_config (yaml colab_sample) ''cfg.yaml'' (world_with_config ''seed: 42'') =
     Inr (PDict [(PStr ''seed'', PInt 42)]) \<and>
   resolve_paths (PDict [(PStr ''seed'', PInt 42)]) = Inr (PStr ''checkpoints'', PStr ''logs'') \<and>
   creatable (world_with_config ''seed: 42'') ''checkpoints'' \<and>
   creatable (world_with_config ''seed: 42'') ''logs'' \<and>
   from_train_import_train env_sample = Inl ImportError \<and>
   import_train env_sample = Inl ImportError \<and>
   fst (main env_sample colab_sample ''cfg.yaml'' (world_with_config ''seed: 42'')) = Exit 3 \<and>
   is_dir (snd (main env_sample colab_sample ''cfg.yaml'' (world_with_config ''seed: 42'')))
     ''checkpoints'' \<and>
   is_dir (snd (main env_sample colab_sample ''cfg.yaml'' (world_with_config ''seed: 42'')))
     ''logs'' \<and>
   trace (snd (main env_sample colab_sample ''cfg.yaml'' (world_with_config ''seed: 42''))) =
     [RandomSeed 42, NpSeed 42, Log INFO ''Set deterministic seed: %s'' [AVal (PInt 42)],
      MakeDirs (PStr ''checkpoints''), MakeDirs (PStr ''logs''),
      ImportFrom ''train'' ''train'', Import ''train'', Log ERROR no_train_message []]"
proof -
  let ?w = "world_with_config ''seed: 42''"
  let ?kvs = "[(PStr ''seed'', PInt 42)]"
  have h1: "load_config (yaml colab_sample) ''cfg.yaml'' ?w = Inr (PDict ?kvs)"
    by (simp add: load_config_def node_at_def split_path_def world_with_config_def world0_def
        colab_sample_def yaml_sample_def)
  have h2: "resolve_paths (PDict ?kvs) = Inr (PStr ''checkpoints'', PStr ''logs'')"
    by (simp add: resolve_paths_def py_get_def)
  have h3: "creatable ?w ''checkpoints''" and h4: "creatable ?w ''logs''"
    by (simp_all add: creatable_def split_path_def node_at_def is_file_def
        world_with_config_def world0_def)
  have h5: "from_train_import_train env_sample = Inl ImportError"
    and h6: "import_train env_sample = Inl ImportError"
    by (simp_all add: env_sample_def)
  have h6': "import_train env_sample = Inl ImportError \<or>
      (\<exists>tm. import_train env_sample = Inr tm \<and> train_attr tm = None)"
    using h6 by simp
  have seeded: "trace (snd (seed_step env_sample colab_sample (PDict ?kvs) ?w)) =
      [RandomSeed 42, NpSeed 42, Log INFO ''Set deterministic seed: %s'' [AVal (PInt 42)]]"
    by (simp add: seed_step_def py_get_def py_int_def call_set_seed_def colab_sample_def
        set_seed_def numpy_legacy_def emit_def Let_def world_with_config_def world0_def)
  from main_no_train_exits_3_after_directories [OF h1 h2 h3 h4 h5 h6']
  obtain w' where w': "main env_sample colab_sample ''cfg.yaml'' ?w = (Exit 3, w')"
    "is_dir w' ''checkpoints''" "is_dir w' ''logs''"
    "trace w' = trace (snd (seed_step env_sample colab_sample (PDict ?kvs) ?w)) @
       [MakeDirs (PStr ''checkpoints''), MakeDirs (PStr ''logs'')] @
       (if truthy (case map_of ?kvs (PStr ''resume'') of None \<Rightarrow> PBool False | Some r \<Rightarrow> r)
        then [Log INFO
           ''Resume enabled - training will attempt to restore from checkpoints in %s''
           [AVal (PStr ''checkpoints'')]]
        else []) @
       [ImportFrom ''train'' ''train'', Import ''train'', Log ERROR no_train_message []]"
    by blast
  have tr: "trace w' =
     [RandomSeed 42, NpSeed 42, Log INFO ''Set deterministic seed: %s'' [AVal (PInt 42)],
      MakeDirs (PStr ''checkpoints''), MakeDirs (PStr ''logs''),
      ImportFrom ''train'' ''train'', Import ''train'', Log ERROR no_train_message []]"
    unfolding w'(4) seeded by (simp add: truthy_def)
  show ?thesis
    using h1 h2 h3 h4 h5 h6 w'(1,2,3) tr by simp
qed

section \<open>What \<open>main\<close> does once the configuration is a mapping\<close>

text \<open>
  \<open>os.makedirs\<close> once more, now with the whole world it leaves: only the filesystem and
  the trace change.
\<close>

lemma os_makedirs_full:
  assumes "creatable w s"
  shows "\<exists>f. os_makedirs (PStr s) True w =
             (None, w\<lparr>fs := f, trace := trace w @ [MakeDirs (PStr s)]\<rparr>) \<and>
           node_at f (split_path s) = Some Dir \<and>
           (\<forall>q. node_at (fs w) q \<noteq> None \<longrightarrow> node_at f q = node_at (fs w) q) \<and>
           (\<forall>q. node_at f q \<noteq> node_at (fs w) q \<longrightarrow> node_at f q = Some Dir)"
proof -
  let ?ps = "prefixes_from [] (split_path s)"
  from assms have ne: "s \<noteq> []" and free: "list_all (\<lambda>p. \<not> is_file (node_at (fs w) p)) ?ps"
    by (simp_all add: creatable_def)
  from mkdir_chain_ok [OF free] obtain f where f:
    "mkdir_chain True (fs w) ?ps = (None, f)"
    "\<forall>p \<in> set ?ps. node_at f p = Some Dir"
    "\<forall>q. node_at (fs w) q \<noteq> None \<longrightarrow> node_at f q = node_at (fs w) q"
    "\<forall>q. node_at f q \<noteq> node_at (fs w) q \<longrightarrow> node_at f q = Some Dir"
    by blast
  have run: "os_makedirs (PStr s) True w =
      (None, w\<lparr>fs := f, trace := trace w @ [MakeDirs (PStr s)]\<rparr>)"
    using ne f(1) by (simp add: os_makedirs_def emit_def)
  have leaf: "node_at f (split_path s) = Some Dir"
  proof (cases "split_path s = []")
    case True
    then show ?thesis by (simp add: node_at_def)
  next
    case False
    then have "[] @ split_path s \<in> set ?ps" by (rule last_prefix)
    then show ?thesis using f(2) by simp
  qed
  show ?thesis
    using run leaf f(3,4) by blast
qed

lemma make_dirs_full:
  assumes "creatable w c" and "creatable w l"
  shows "\<exists>f. make_dirs (PStr c) (PStr l) w =
             (None, w\<lparr>fs := f, trace := trace w @ [MakeDirs (PStr c), MakeDirs (PStr l)]\<rparr>) \<and>
           node_at f (split_path c) = Some Dir \<and> node_at f (split_path l) = Some Dir \<and>
           (\<forall>q. node_at (fs w) q \<noteq> None \<longrightarrow> node_at f q = node_at (fs w) q)"
proof -
  from os_makedirs_full [OF assms(1)] obtain f1 where f1:
    "os_makedirs (PStr c) True w = (None, w\<lparr>fs := f1, trace := trace w @ [MakeDirs (PStr c)]\<rparr>)"
    "node_at f1 (split_path c) = Some Dir"
    "\<forall>q. node_at (fs w) q \<noteq> None \<longrightarrow> node_at f1 q = node_at (fs w) q"
    "\<forall>q. node_at f1 q \<noteq> node_at (fs w) q \<longrightarrow> node_at f1 q = Some Dir"
    by blast
  let ?w1 = "w\<lparr>fs := f1, trace := trace w @ [MakeDirs (PStr c)]\<rparr>"
  have "list_all (\<lambda>p. \<not> is_file (node_at (fs ?w1) p)) (prefixes_from [] (split_path l))"
    unfolding list_all_iff
  proof
    fix p assume "p \<in> set (prefixes_from [] (split_path l))"
    then have old: "\<not> is_file (node_at (fs w) p)"
      using assms(2) by (simp add: creatable_def list_all_iff)
    show "\<not> is_file (node_at (fs ?w1) p)"
    proof (cases "node_at f1 p = node_at (fs w) p")
      case True
      with old show ?thesis by simp
    next
      case False
      then have "node_at f1 p = Some Dir" using f1(4) by blast
      then show ?thesis by (simp add: is_file_def)
    qed
  qed
  then have "creatable ?w1 l"
    using assms(2) by (simp add: creatable_def)
  from os_makedirs_full [OF this] obtain f2 where f2:
    "os_makedirs (PStr l) True ?w1 =
       (None, ?w1\<lparr>fs := f2, trace := trace ?w1 @ [MakeDirs (PStr l)]\<rparr>)"
    "node_at f2 (split_path l) = Some Dir"
    "\<forall>q. node_at (fs ?w1) q \<noteq> None \<longrightarrow> node_at f2 q = node_at (fs ?w1) q"
    by blast
  have run: "make_dirs (PStr c) (PStr l) w =
      (None, w\<lparr>fs := f2, trace := trace w @ [MakeDirs (PStr c), MakeDirs (PStr l)]\<rparr>)"
    using f1(1) f2(1) by (simp add: make_dirs_def)
  have c: "node_at f2 (split_path c) = Some Dir"
    using f1(2) f2(3) by simp
  have keep: "\<forall>q. node_at (fs w) q \<noteq> None \<longrightarrow> node_at f2 q = node_at (fs w) q"
    using f1(3) f2(3) by simp
  show ?thesis
    using run c f2(2) keep by blast
qed

text \<open>
  \<open>main\<close> from the seeding step on, for a configuration that is a mapping and whose two
  paths can be created: the world \<open>w1\<close> in which the entry point is looked at differs
  from the one the seeding step left in the filesystem, where both directories now exist
  and nothing that existed has changed, and in the trace, which has grown by the two
  \<open>os.makedirs\<close> calls, the resume notice if any, and the import attempts. What \<open>main\<close>
  returns is decided by what \<open>train\<close> is bound to.
\<close>

lemma main_on_mapping:
  assumes loads: "load_config (yaml cm) config_path w = Inr (PDict kvs)"
    and paths: "resolve_paths (PDict kvs) = Inr (PStr c, PStr l)"
    and free: "creatable w c" "creatable w l"
    and seed: "seed_step env cm (PDict kvs) w = (None, ws)"
  shows "\<exists>f w1.
      w1 = ws\<lparr>fs := f,
             trace := trace ws @ [MakeDirs (PStr c), MakeDirs (PStr l)] @
             (if truthy (case map_of kvs (PStr ''resume'') of None \<Rightarrow> PBool False | Some r \<Rightarrow> r)
              then [Log INFO
                 ''Resume enabled - training will attempt to restore from checkpoints in %s''
                 [AVal (PStr c)]]
              else []) @
             [ImportFrom ''train'' ''train''] @
             (case from_train_import_train env of Inl e \<Rightarrow> [Import ''train''] | Inr g \<Rightarrow> [])\<rparr> \<and>
      node_at f (split_path c) = Some Dir \<and> node_at f (split_path l) = Some Dir \<and>
      (\<forall>q. node_at (fs w) q \<noteq> None \<longrightarrow> node_at f q = node_at (fs w) q) \<and>
      main env cm config_path w =
        (case case from_train_import_train env of
              Inr g \<Rightarrow> g
            | Inl e \<Rightarrow>
                (case import_train env of
                   Inr tm \<Rightarrow> (case train_attr tm of None \<Rightarrow> ObjNone | Some g \<Rightarrow> g)
                 | Inl e' \<Rightarrow> ObjNone) of
            ObjNone \<Rightarrow> (Exit 3, emit (Log ERROR no_train_message []) w1)
          | ObjFunction g \<Rightarrow>
              g (PDict kvs)
                (emit (CallTrain (PDict kvs))
                   (emit (Log INFO ''Starting training with config: %s''
                      [AVal (PStr config_path)]) w1))
          | ObjOther \<Rightarrow>
              (Raised TypeError,
               emit (Log INFO ''Starting training with config: %s''
                 [AVal (PStr config_path)]) w1))"
proof -
  let ?notice = "(if truthy (case map_of kvs (PStr ''resume'') of None \<Rightarrow> PBool False | Some r \<Rightarrow> r)
              then [Log INFO
                 ''Resume enabled - training will attempt to restore from checkpoints in %s''
                 [AVal (PStr c)]]
              else [])"
  let ?imports = "[ImportFrom ''train'' ''train''] @
             (case from_train_import_train env of Inl e \<Rightarrow> [Import ''train''] | Inr g \<Rightarrow> [])"
  let ?train = "(case from_train_import_train env of
              Inr g \<Rightarrow> g
            | Inl e \<Rightarrow>
                (case import_train env of
                   Inr tm \<Rightarrow> (case train_attr tm of None \<Rightarrow> ObjNone | Some g \<Rightarrow> g)
                 | Inl e' \<Rightarrow> ObjNone))"
  have ex: "path_exists w config_path"
    using loads by (rule load_config_exists)
  have m: "main env cm config_path w = directories_and_dispatch env config_path (PDict kvs) ws"
    using ex loads seed by (simp add: main_def)
  have "fs ws = fs w"
    using seed_step_fs [of env cm "PDict kvs" w] by (simp add: seed)
  then have "creatable ws c" and "creatable ws l"
    using free by (simp_all add: creatable_def)
  from make_dirs_full [OF this] obtain f where f:
    "make_dirs (PStr c) (PStr l) ws =
       (None, ws\<lparr>fs := f, trace := trace ws @ [MakeDirs (PStr c), MakeDirs (PStr l)]\<rparr>)"
    "node_at f (split_path c) = Some Dir" "node_at f (split_path l) = Some Dir"
    "\<forall>q. node_at (fs ws) q \<noteq> None \<longrightarrow> node_at f q = node_at (fs ws) q"
    by blast
  define wd where "wd = ws\<lparr>fs := f, trace := trace ws @ [MakeDirs (PStr c), MakeDirs (PStr l)]\<rparr>"
  define wn where "wn = wd\<lparr>trace := trace wd @ ?notice\<rparr>"
  define w1 where "w1 = wn\<lparr>trace := trace wn @ ?imports\<rparr>"
  have notice: "resume_notice (PDict kvs) (PStr c) wd = (None, wn)"
    by (simp add: resume_notice_def py_get_def wn_def emit_def)
  have resolve: "resolve_train env wn = (?train, w1)"
    by (simp add: resolve_train_def Let_def w1_def emit_def split: sum.splits)
  have "directories_and_dispatch env config_path (PDict kvs) ws =
      dispatch ?train config_path (PDict kvs) w1"
    using paths f(1) notice resolve by (simp add: directories_and_dispatch_def wd_def)
  then have run: "main env cm config_path w =
        (case case from_train_import_train env of
              Inr g \<Rightarrow> g
            | Inl e \<Rightarrow>
                (case import_train env of
                   Inr tm \<Rightarrow> (case train_attr tm of None \<Rightarrow> ObjNone | Some g \<Rightarrow> g)
                 | Inl e' \<Rightarrow> ObjNone) of
            ObjNone \<Rightarrow> (Exit 3, emit (Log ERROR no_train_message []) w1)
          | ObjFunction g \<Rightarrow>
              g (PDict kvs)
                (emit (CallTrain (PDict kvs))
                   (emit (Log INFO ''Starting training with config: %s''
                      [AVal (PStr config_path)]) w1))
          | ObjOther \<Rightarrow>
              (Raised TypeError,
               emit (Log INFO ''Starting training with config: %s''
                 [AVal (PStr config_path)]) w1))"
    using m by (simp add: dispatch_def)
  have shape: "w1 = ws\<lparr>fs := f,
             trace := trace ws @ [MakeDirs (PStr c), MakeDirs (PStr l)] @ ?notice @ ?imports\<rparr>"
    by (simp add: w1_def wn_def wd_def)
  have keep: "\<forall>q. node_at (fs w) q \<noteq> None \<longrightarrow> node_at f q = node_at (fs w) q"
    using f(4) \<open>fs ws = fs w\<close> by simp
  have "w1 = ws\<lparr>fs := f,
             trace := trace ws @ [MakeDirs (PStr c), MakeDirs (PStr l)] @ ?notice @ ?imports\<rparr> \<and>
      node_at f (split_path c) = Some Dir \<and> node_at f (split_path l) = Some Dir \<and>
      (\<forall>q. node_at (fs w) q \<noteq> None \<longrightarrow> node_at f q = node_at (fs w) q) \<and>
      main env cm config_path w =
        (case case from_train_import_train env of
              Inr g \<Rightarrow> g
            | Inl e \<Rightarrow>
                (case import_train env of
                   Inr tm \<Rightarrow> (case train_attr tm of None \<Rightarrow> ObjNone | Some g \<Rightarrow> g)
                 | Inl e' \<Rightarrow> ObjNone) of
            ObjNone \<Rightarrow> (Exit 3, emit (Log ERROR no_train_message []) w1)
          | ObjFunction g \<Rightarrow>
              g (PDict kvs)
                (emit (CallTrain (PDict kvs))
                   (emit (Log INFO ''Starting training with config: %s''
                      [AVal (PStr config_path)]) w1))
          | ObjOther \<Rightarrow>
              (Raised TypeError,
               emit (Log INFO ''Starting training with config: %s''
                 [AVal (PStr config_path)]) w1))"
    using shape f(2,3) keep run by simp
  then show ?thesis
    by (intro exI [of _ f] exI [of _ w1])
qed

text \<open>
  Claim C6, as amended. When the configuration is a mapping without a \<open>seed\<close> key whose
  two paths are strings that \<open>os.makedirs\<close> can create, \<open>main\<close> performs no seeding
  call and raises no error on the way: the first thing it adds to the trace are the two
  \<open>os.makedirs\<close> calls, both directories exist afterwards, no generator has changed its
  state, the import attempts follow, and \<open>main\<close> dispatches: exit code 3 where \<open>train\<close>
  is \<open>None\<close>, the call of \<open>train\<close> with the configuration where it is a function.
\<close>

theorem main_without_seed_creates_and_dispatches:
  assumes loads: "load_config (yaml cm) config_path w = Inr (PDict kvs)"
    and no_seed: "map_of kvs (PStr ''seed'') = None"
    and paths: "resolve_paths (PDict kvs) = Inr (PStr c, PStr l)"
    and free: "creatable w c" "creatable w l"
  shows "\<exists>f w1.
      w1 = w\<lparr>fs := f,
             trace := trace w @ [MakeDirs (PStr c), MakeDirs (PStr l)] @
             (if truthy (case map_of kvs (PStr ''resume'') of None \<Rightarrow> PBool False | Some r \<Rightarrow> r)
              then [Log INFO
                 ''Resume enabled - training will attempt to restore from checkpoints in %s''
                 [AVal (PStr c)]]
              else []) @
             [ImportFrom ''train'' ''train''] @
             (case from_train_import_train env of Inl e \<Rightarrow> [Import ''train''] | Inr g \<Rightarrow> [])\<rparr> \<and>
      is_dir w1 c \<and> is_dir w1 l \<and>
      py_rng w1 = py_rng w \<and> np_rng w1 = np_rng w \<and>
      torch_rng w1 = torch_rng w \<and> cuda_rng w1 = cuda_rng w \<and>
      main env cm config_path w =
        (case case from_train_import_train env of
              Inr g \<Rightarrow> g
            | Inl e \<Rightarrow>
                (case import_train env of
                   Inr tm \<Rightarrow> (case train_attr tm of None \<Rightarrow> ObjNone | Some g \<Rightarrow> g)
                 | Inl e' \<Rightarrow> ObjNone) of
            ObjNone \<Rightarrow> (Exit 3, emit (Log ERROR no_train_message []) w1)
          | ObjFunction g \<Rightarrow>
              g (PDict kvs)
                (emit (CallTrain (PDict kvs))
                   (emit (Log INFO ''Starting training with config: %s''
                      [AVal (PStr config_path)]) w1))
          | ObjOther \<Rightarrow>
              (Raised TypeError,
               emit (Log INFO ''Starting training with config: %s''
                 [AVal (PStr config_path)]) w1))"
proof -
  have seed: "seed_step env cm (PDict kvs) w = (None, w)"
    using no_seed by (simp add: seed_step_def py_get_def)
  from main_on_mapping [OF loads paths free seed] obtain f w1 where w1:
    "w1 = w\<lparr>fs := f,
             trace := trace w @ [MakeDirs (PStr c), MakeDirs (PStr l)] @
             (if truthy (case map_of kvs (PStr ''resume'') of None \<Rightarrow> PBool False | Some r \<Rightarrow> r)
              then [Log INFO
                 ''Resume enabled - training will attempt to restore from checkpoints in %s''
                 [AVal (PStr c)]]
              else []) @
             [ImportFrom ''train'' ''train''] @
             (case from_train_import_train env of Inl e \<Rightarrow> [Import ''train''] | Inr g \<Rightarrow> [])\<rparr>"
    "node_at f (split_path c) = Some Dir" "node_at f (split_path l) = Some Dir"
    "main env cm config_path w =
        (case case from_train_import_train env of
              Inr g \<Rightarrow> g
            | Inl e \<Rightarrow>
                (case import_train env of
                   Inr tm \<Rightarrow> (case train_attr tm of None \<Rightarrow> ObjNone | Some g \<Rightarrow> g)
                 | Inl e' \<Rightarrow> ObjNone) of
            ObjNone \<Rightarrow> (Exit 3, emit (Log ERROR no_train_message []) w1)
          | ObjFunction g \<Rightarrow>
              g (PDict kvs)
                (emit (CallTrain (PDict kvs))
                   (emit (Log INFO ''Starting training with config: %s''
                      [AVal (PStr config_path)]) w1))
          | ObjOther \<Rightarrow>
              (Raised TypeError,
               emit (Log INFO ''Starting training with config: %s''
                 [AVal (PStr config_path)]) w1))"
    by blast
  have dirs: "is_dir w1 c" "is_dir w1 l"
    using w1(2,3) by (simp_all add: is_dir_def w1(1))
  have rng: "py_rng w1 = py_rng w" "np_rng w1 = np_rng w"
    "torch_rng w1 = torch_rng w" "cuda_rng w1 = cuda_rng w"
    by (simp_all add: w1(1))
  have "w1 = w\<lparr>fs := f,
             trace := trace w @ [MakeDirs (PStr c), MakeDirs (PStr l)] @
             (if truthy (case map_of kvs (PStr ''resume'') of None \<Rightarrow> PBool False | Some r \<Rightarrow> r)
              then [Log INFO
                 ''Resume enabled - training will attempt to restore from checkpoints in %s''
                 [AVal (PStr c)]]
              else []) @
             [ImportFrom ''train'' ''train''] @
             (case from_train_import_train env of Inl e \<Rightarrow> [Import ''train''] | Inr g \<Rightarrow> [])\<rparr> \<and>
      is_dir w1 c \<and> is_dir w1 l \<and>
      py_rng w1 = py_rng w \<and> np_rng w1 = np_rng w \<and>
      torch_rng w1 = torch_rng w \<and> cuda_rng w1 = cuda_rng w \<and>
      main env cm config_path w =
        (case case from_train_import_train env of
              Inr g \<Rightarrow> g
            | Inl e \<Rightarrow>
                (case import_train env of
                   Inr tm \<Rightarrow> (case train_attr tm of None \<Rightarrow> ObjNone | Some g \<Rightarrow> g)
                 | Inl e' \<Rightarrow> ObjNone) of
            ObjNone \<Rightarrow> (Exit 3, emit (Log ERROR no_train_message []) w1)
          | ObjFunction g \<Rightarrow>
              g (PDict kvs)
                (emit (CallTrain (PDict kvs))
                   (emit (Log INFO ''Starting training with config: %s''
                      [AVal (PStr config_path)]) w1))
          | ObjOther \<Rightarrow>
              (Raised TypeError,
               emit (Log INFO ''Starting training with config: %s''
                 [AVal (PStr config_path)]) w1))"
    using w1(1,4) dirs rng by blast
  then show ?thesis
    by (intro exI [of _ f] exI [of _ w1])
qed

text \<open>
  The theorem at the configuration \<open>resume: true\<close> in the sample environment, which has
  no \<open>train\<close> module.
\<close>

theorem main_without_seed_witness:
  "load_config (yaml colab_sample) ''cfg.yaml'' (world_with_config ''resume: true'') =
     Inr (PDict [(PStr ''resume'', PBool True)]) \<and>
   map_of [(PStr ''resume'', PBool True)] (PStr ''seed'') = None \<and>
   resolve_paths (PDict [(PStr ''resume'', PBool True)]) =
     Inr (PStr ''checkpoints'', PStr ''logs'') \<and>
   creatable (world_with_config ''resume: true'') ''checkpoints'' \<and>
   creatable (world_with_config ''resume: true'') ''logs'' \<and>
   fst (main env_sample colab_sample ''cfg.yaml'' (world_with_config ''resume: true'')) = Exit 3 \<and>
   trace (snd (main env_sample colab_sample ''cfg.yaml'' (world_with_config ''resume: true''))) =
     [MakeDirs (PStr ''checkpoints''), MakeDirs (PStr ''logs''),
      Log INFO ''Resume enabled - training will attempt to restore from checkpoints in %s''
        [AVal (PStr ''checkpoints'')],
      ImportFrom ''train'' ''train'', Import ''train'', Log ERROR no_train_message []] \<and>
   is_dir (snd (main env_sample colab_sample ''cfg.yaml'' (world_with_config ''resume: true'')))
     ''checkpoints'' \<and>
   is_dir (snd (main env_sample colab_sample ''cfg.yaml'' (world_with_config ''resume: true'')))
     ''logs'' \<and>
   py_rng (snd (main env_sample colab_sample ''cfg.yaml'' (world_with_config ''resume: true''))) =
     Unseeded \<and>
   np_rng (snd (main env_sample colab_sample ''cfg.yaml'' (world_with_config ''resume: true''))) =
     Unseeded"
proof -
  let ?w = "world_with_config ''resume: true''"
  let ?kvs = "[(PStr ''resume'', PBool True)]"
  have h1: "load_config (yaml colab_sample) ''cfg.yaml'' ?w = Inr (PDict ?kvs)"
    by (simp add: load_config_def node_at_def split_path_def world_with_config_def world0_def
        colab_sample_def yaml_sample_def)
  have h2: "map_of ?kvs (PStr ''seed'') = None"
    by simp
  have h3: "resolve_paths (PDict ?kvs) = Inr (PStr ''checkpoints'', PStr ''logs'')"
    by (simp add: resolve_paths_def py_get_def)
  have h4: "creatable ?w ''checkpoints''" and h5: "creatable ?w ''logs''"
    by (simp_all add: creatable_def split_path_def node_at_def is_file_def
        world_with_config_def world0_def)
  from main_without_seed_creates_and_dispatches [OF h1 h2 h3 h4 h5, of env_sample]
  obtain f w1 where w1:
    "w1 = ?w\<lparr>fs := f,
       trace := trace ?w @ [MakeDirs (PStr ''checkpoints''), MakeDirs (PStr ''logs'')] @
         [Log INFO ''Resume enabled - training will attempt to restore from checkpoints in %s''
            [AVal (PStr ''checkpoints'')]] @
         [ImportFrom ''train'' ''train'', Import ''train'']\<rparr>"
    "is_dir w1 ''checkpoints''" "is_dir w1 ''logs''"
    "main env_sample colab_sample ''cfg.yaml'' ?w = (Exit 3, emit (Log ERROR no_train_message []) w1)"
    by (auto simp add: env_sample_def truthy_def)
  have tr: "trace (emit (Log ERROR no_train_message []) w1) =
     [MakeDirs (PStr ''checkpoints''), MakeDirs (PStr ''logs''),
      Log INFO ''Resume enabled - training will attempt to restore from checkpoints in %s''
        [AVal (PStr ''checkpoints'')],
      ImportFrom ''train'' ''train'', Import ''train'', Log ERROR no_train_message []]"
    by (simp add: emit_def w1(1) world_with_config_def world0_def)
  have rng: "py_rng (emit (Log ERROR no_train_message []) w1) = Unseeded"
    "np_rng (emit (Log ERROR no_train_message []) w1) = Unseeded"
    by (simp_all add: emit_def w1(1) world_with_config_def world0_def)
  have dirs: "is_dir (emit (Log ERROR no_train_message []) w1) ''checkpoints''"
    "is_dir (emit (Log ERROR no_train_message []) w1) ''logs''"
    using w1(2,3) by (simp_all add: is_dir_def emit_def)
  show ?thesis
    using h1 h2 h3 h4 h5 tr rng dirs by (simp add: w1(4))
qed

text \<open>
  Claim C6 as stated fails at the empty configuration file, which has no \<open>seed\<close> key:
  \<open>safe_load\<close> gives \<open>None\<close>, line 46 raises \<open>AttributeError\<close>, and \<open>main\<close> ends there
  with no directory created and nothing dispatched. It fails too at \<open>resume: true\<close>
  where a regular file named \<open>logs\<close> is in the way: \<open>main\<close> ends with
  \<open>FileExistsError\<close> after the first \<open>os.makedirs\<close> and never reaches the dispatch.
\<close>

theorem main_without_seed_empty_configuration_raises:
  "load_config (yaml colab_sample) ''cfg.yaml'' (world_with_config []) = Inr PNone \<and>
   fst (main env_sample colab_sample ''cfg.yaml'' (world_with_config [])) =
     Raised AttributeError \<and>
   trace (snd (main env_sample colab_sample ''cfg.yaml'' (world_with_config []))) = [] \<and>
   map_of [(PStr ''resume'', PBool True)] (PStr ''seed'') = None \<and>
   fst (main env_sample colab_sample ''cfg.yaml''
          (world_with_entries [([''cfg.yaml''], File ''resume: true''), ([''logs''], File [])])) =
     Raised FileExistsError \<and>
   trace (snd (main env_sample colab_sample ''cfg.yaml''
          (world_with_entries [([''cfg.yaml''], File ''resume: true''), ([''logs''], File [])]))) =
     [MakeDirs (PStr ''checkpoints'')]"
  by (simp add: main_def path_exists_def load_config_def node_at_def split_path_def
      seed_step_def py_get_def directories_and_dispatch_def resolve_paths_def make_dirs_def
      os_makedirs_def emit_def colab_sample_def yaml_sample_def world_with_config_def
      world_with_entries_def world0_def)

text \<open>
  Claim C7, as amended. \<open>main\<close> takes the checkpoint directory from \<open>paths.checkpoints\<close>
  and the log directory from \<open>paths.logs\<close>, with the defaults \<open>checkpoints\<close> and \<open>logs\<close>
  where the key, or the whole \<open>paths\<close> mapping, is absent. When the \<open>paths\<close> value is
  absent or a mapping and the two names are strings that \<open>os.makedirs\<close> can create,
  \<open>main\<close> creates both directories, in this order and before it looks for the entry
  point; a directory that exists already is no error, and nothing that existed in the
  filesystem is changed.
\<close>

theorem main_creates_both_directories:
  assumes loads: "load_config (yaml cm) config_path w = Inr (PDict kvs)"
    and paths: "map_of kvs (PStr ''paths'') = None \<and> ps = [] \<or>
                map_of kvs (PStr ''paths'') = Some (PDict ps)"
    and ckpt: "(case map_of ps (PStr ''checkpoints'') of
                  None \<Rightarrow> PStr ''checkpoints'' | Some v \<Rightarrow> v) = PStr c"
    and logs: "(case map_of ps (PStr ''logs'') of None \<Rightarrow> PStr ''logs'' | Some v \<Rightarrow> v) = PStr l"
    and free: "creatable w c" "creatable w l"
  shows "\<exists>f w1.
      w1 = (snd (seed_step env cm (PDict kvs) w))\<lparr>fs := f,
             trace := trace (snd (seed_step env cm (PDict kvs) w)) @
               [MakeDirs (PStr c), MakeDirs (PStr l)] @
             (if truthy (case map_of kvs (PStr ''resume'') of None \<Rightarrow> PBool False | Some r \<Rightarrow> r)
              then [Log INFO
                 ''Resume enabled - training will attempt to restore from checkpoints in %s''
                 [AVal (PStr c)]]
              else []) @
             [ImportFrom ''train'' ''train''] @
             (case from_train_import_train env of Inl e \<Rightarrow> [Import ''train''] | Inr g \<Rightarrow> [])\<rparr> \<and>
      is_dir w1 c \<and> is_dir w1 l \<and>
      (\<forall>q. node_at (fs w) q \<noteq> None \<longrightarrow> node_at (fs w1) q = node_at (fs w) q) \<and>
      main env cm config_path w =
        (case case from_train_import_train env of
              Inr g \<Rightarrow> g
            | Inl e \<Rightarrow>
                (case import_train env of
                   Inr tm \<Rightarrow> (case train_attr tm of None \<Rightarrow> ObjNone | Some g \<Rightarrow> g)
                 | Inl e' \<Rightarrow> ObjNone) of
            ObjNone \<Rightarrow> (Exit 3, emit (Log ERROR no_train_message []) w1)
          | ObjFunction g \<Rightarrow>
              g (PDict kvs)
                (emit (CallTrain (PDict kvs))
                   (emit (Log INFO ''Starting training with config: %s''
                      [AVal (PStr config_path)]) w1))
          | ObjOther \<Rightarrow>
              (Raised TypeError,
               emit (Log INFO ''Starting training with config: %s''
                 [AVal (PStr config_path)]) w1))"
proof -
  have resolved: "resolve_paths (PDict kvs) = Inr (PStr c, PStr l)"
    using paths ckpt logs by (auto simp add: resolve_paths_def py_get_def)
  obtain ws where seed: "seed_step env cm (PDict kvs) w = (None, ws)"
    using seed_step_dict [of env cm kvs w] by (cases "seed_step env cm (PDict kvs) w") simp
  have ws: "snd (seed_step env cm (PDict kvs) w) = ws"
    by (simp add: seed)
  from main_on_mapping [OF loads resolved free seed] obtain f w1 where w1:
    "w1 = ws\<lparr>fs := f,
             trace := trace ws @ [MakeDirs (PStr c), MakeDirs (PStr l)] @
             (if truthy (case map_of kvs (PStr ''resume'') of None \<Rightarrow> PBool False | Some r \<Rightarrow> r)
              then [Log INFO
                 ''Resume enabled - training will attempt to restore from checkpoints in %s''
                 [AVal (PStr c)]]
              else []) @
             [ImportFrom ''train'' ''train''] @
             (case from_train_import_train env of Inl e \<Rightarrow> [Import ''train''] | Inr g \<Rightarrow> [])\<rparr>"
    "node_at f (split_path c) = Some Dir" "node_at f (split_path l) = Some Dir"
    "\<forall>q. node_at (fs w) q \<noteq> None \<longrightarrow> node_at f q = node_at (fs w) q"
    "main env cm config_path w =
        (case case from_train_import_train env of
              Inr g \<Rightarrow> g
            | Inl e \<Rightarrow>
                (case import_train env of
                   Inr tm \<Rightarrow> (case train_attr tm of None \<Rightarrow> ObjNone | Some g \<Rightarrow> g)
                 | Inl e' \<Rightarrow> ObjNone) of
            ObjNone \<Rightarrow> (Exit 3, emit (Log ERROR no_train_message []) w1)
          | ObjFunction g \<Rightarrow>
              g (PDict kvs)
                (emit (CallTrain (PDict kvs))
                   (emit (Log INFO ''Starting training with config: %s''
                      [AVal (PStr config_path)]) w1))
          | ObjOther \<Rightarrow>
              (Raised TypeError,
               emit (Log INFO ''Starting training with config: %s''
                 [AVal (PStr config_path)]) w1))"
    by blast
  have dirs: "is_dir w1 c" "is_dir w1 l"
    using w1(2,3) by (simp_all add: is_dir_def w1(1))
  have keep: "\<forall>q. node_at (fs w) q \<noteq> None \<longrightarrow> node_at (fs w1) q = node_at (fs w) q"
    using w1(4) by (simp add: w1(1))
  have "w1 = ws\<lparr>fs := f,
             trace := trace ws @ [MakeDirs (PStr c), MakeDirs (PStr l)] @
             (if truthy (case map_of kvs (PStr ''resume'') of None \<Rightarrow> PBool False | Some r \<Rightarrow> r)
              then [Log INFO
                 ''Resume enabled - training will attempt to restore from checkpoints in %s''
                 [AVal (PStr c)]]
              else []) @
             [ImportFrom ''train'' ''train''] @
             (case from_train_import_train env of Inl e \<Rightarrow> [Import ''train''] | Inr g \<Rightarrow> [])\<rparr> \<and>
      is_dir w1 c \<and> is_dir w1 l \<and>
      (\<forall>q. node_at (fs w) q \<noteq> None \<longrightarrow> node_at (fs w1) q = node_at (fs w) q) \<and>
      main env cm config_path w =
        (case case from_train_import_train env of
              Inr g \<Rightarrow> g
            | Inl e \<Rightarrow>
                (case import_train env of
                   Inr tm \<Rightarrow> (case train_attr tm of None \<Rightarrow> ObjNone | Some g \<Rightarrow> g)
                 | Inl e' \<Rightarrow> ObjNone) of
            ObjNone \<Rightarrow> (Exit 3, emit (Log ERROR no_train_message []) w1)
          | ObjFunction g \<Rightarrow>
              g (PDict kvs)
                (emit (CallTrain (PDict kvs))
                   (emit (Log INFO ''Starting training with config: %s''
                      [AVal (PStr config_path)]) w1))
          | ObjOther \<Rightarrow>
              (Raised TypeError,
               emit (Log INFO ''Starting training with config: %s''
                 [AVal (PStr config_path)]) w1))"
    using w1(1,5) dirs keep by blast
  then show ?thesis
    unfolding ws by (intro exI [of _ f] exI [of _ w1])
qed

text \<open>
  The theorem at \<open>paths: {logs: out/logs}\<close> where \<open>out/logs\<close> exists already and
  \<open>train\<close> is a function, and at \<open>seed: 42\<close>, which has no \<open>paths\<close> key.
\<close>

theorem main_creates_both_directories_witness:
  "load_config (yaml colab_sample) ''cfg.yaml''
     (world_with_entries [([''cfg.yaml''], File ''paths: {logs: out/logs}''),
        ([''out''], Dir), ([''out'', ''logs''], Dir)]) =
     Inr (PDict [(PStr ''paths'', PDict [(PStr ''logs'', PStr ''out/logs'')])]) \<and>
   map_of [(PStr ''paths'', PDict [(PStr ''logs'', PStr ''out/logs'')])] (PStr ''paths'') =
     Some (PDict [(PStr ''logs'', PStr ''out/logs'')]) \<and>
   creatable (world_with_entries [([''cfg.yaml''], File ''paths: {logs: out/logs}''),
        ([''out''], Dir), ([''out'', ''logs''], Dir)]) ''checkpoints'' \<and>
   creatable (world_with_entries [([''cfg.yaml''], File ''paths: {logs: out/logs}''),
        ([''out''], Dir), ([''out'', ''logs''], Dir)]) ''out/logs'' \<and>
   is_dir (world_with_entries [([''cfg.yaml''], File ''paths: {logs: out/logs}''),
        ([''out''], Dir), ([''out'', ''logs''], Dir)]) ''out/logs'' \<and>
   fst (main (env_sample\<lparr>from_train_import_train := Inr train_returns\<rparr>) colab_sample ''cfg.yaml''
     (world_with_entries [([''cfg.yaml''], File ''paths: {logs: out/logs}''),
        ([''out''], Dir), ([''out'', ''logs''], Dir)])) = Returned \<and>
   trace (snd (main (env_sample\<lparr>from_train_import_train := Inr train_returns\<rparr>) colab_sample
     ''cfg.yaml''
     (world_with_entries [([''cfg.yaml''], File ''paths: {logs: out/logs}''),
        ([''out''], Dir), ([''out'', ''logs''], Dir)]))) =
     [MakeDirs (PStr ''checkpoints''), MakeDirs (PStr ''out/logs''),
      ImportFrom ''train'' ''train'',
      Log INFO ''Starting training with config: %s'' [AVal (PStr ''cfg.yaml'')],
      CallTrain (PDict [(PStr ''paths'', PDict [(PStr ''logs'', PStr ''out/logs'')])])] \<and>
   is_dir (snd (main (env_sample\<lparr>from_train_import_train := Inr train_returns\<rparr>) colab_sample
     ''cfg.yaml''
     (world_with_entries [([''cfg.yaml''], File ''paths: {logs: out/logs}''),
        ([''out''], Dir), ([''out'', ''logs''], Dir)]))) ''checkpoints'' \<and>
   is_dir (snd (main (env_sample\<lparr>from_train_import_train := Inr train_returns\<rparr>) colab_sample
     ''cfg.yaml''
     (world_with_entries [([''cfg.yaml''], File ''paths: {logs: out/logs}''),
        ([''out''], Dir), ([''out'', ''logs''], Dir)]))) ''out/logs'' \<and>
   map_of [(PStr ''seed'', PInt 42)] (PStr ''paths'') = None \<and>
   fst (main env_sample colab_sample ''cfg.yaml'' (world_with_config ''seed: 42'')) = Exit 3 \<and>
   is_dir (snd (main env_sample colab_sample ''cfg.yaml'' (world_with_config ''seed: 42'')))
     ''checkpoints'' \<and>
   is_dir (snd (main env_sample colab_sample ''cfg.yaml'' (world_with_config ''seed: 42'')))
     ''logs''"
proof -
  let ?w = "world_with_entries [([''cfg.yaml''], File ''paths: {logs: out/logs}''),
        ([''out''], Dir), ([''out'', ''logs''], Dir)]"
  let ?ps = "[(PStr ''logs'', PStr ''out/logs'')]"
  let ?kvs = "[(PStr ''paths'', PDict ?ps)]"
  let ?env = "env_sample\<lparr>from_train_import_train := Inr train_returns\<rparr>"
  have a1: "load_config (yaml colab_sample) ''cfg.yaml'' ?w = Inr (PDict ?kvs)"
    by (simp add: load_config_def node_at_def split_path_def world_with_entries_def world0_def
        colab_sample_def yaml_sample_def)
  have a2: "map_of ?kvs (PStr ''paths'') = Some (PDict ?ps)"
    by simp
  have a2': "map_of ?kvs (PStr ''paths'') = None \<and> ?ps = [] \<or>
             map_of ?kvs (PStr ''paths'') = Some (PDict ?ps)"
    by simp
  have a3: "(case map_of ?ps (PStr ''checkpoints'') of
               None \<Rightarrow> PStr ''checkpoints'' | Some v \<Rightarrow> v) = PStr ''checkpoints''"
    and a4: "(case map_of ?ps (PStr ''logs'') of None \<Rightarrow> PStr ''logs'' | Some v \<Rightarrow> v) =
               PStr ''out/logs''"
    by simp_all
  have a5: "creatable ?w ''checkpoints''" and a6: "creatable ?w ''out/logs''"
    by (simp_all add: creatable_def split_path_def node_at_def is_file_def
        world_with_entries_def world0_def)
  have a7: "is_dir ?w ''out/logs''"
    by (simp add: is_dir_def split_path_def node_at_def world_with_entries_def world0_def)
  have quiet: "snd (seed_step ?env colab_sample (PDict ?kvs) ?w) = ?w"
    by (simp add: seed_step_def py_get_def)
  from main_creates_both_directories [OF a1 a2' a3 a4 a5 a6, of ?env]
  obtain f w1 where w1:
    "w1 = ?w\<lparr>fs := f,
       trace := trace ?w @ [MakeDirs (PStr ''checkpoints''), MakeDirs (PStr ''out/logs'')] @
         [] @ [ImportFrom ''train'' ''train'']\<rparr>"
    "is_dir w1 ''checkpoints''" "is_dir w1 ''out/logs''"
    "main ?env colab_sample ''cfg.yaml'' ?w =
       (Returned,
        emit (CallTrain (PDict ?kvs))
          (emit (Log INFO ''Starting training with config: %s'' [AVal (PStr ''cfg.yaml'')]) w1))"
    unfolding quiet by (auto simp add: env_sample_def truthy_def train_returns_def)
  let ?end = "emit (CallTrain (PDict ?kvs))
          (emit (Log INFO ''Starting training with config: %s'' [AVal (PStr ''cfg.yaml'')]) w1)"
  have tr: "trace ?end =
     [MakeDirs (PStr ''checkpoints''), MakeDirs (PStr ''out/logs''),
      ImportFrom ''train'' ''train'',
      Log INFO ''Starting training with config: %s'' [AVal (PStr ''cfg.yaml'')],
      CallTrain (PDict ?kvs)]"
    by (simp add: emit_def w1(1) world_with_entries_def world0_def)
  have dirs: "is_dir ?end ''checkpoints''" "is_dir ?end ''out/logs''"
    using w1(2,3) by (simp_all add: is_dir_def emit_def)
  let ?v = "world_with_config ''seed: 42''"
  let ?kvs2 = "[(PStr ''seed'', PInt 42)]"
  have b1: "load_config (yaml colab_sample) ''cfg.yaml'' ?v = Inr (PDict ?kvs2)"
    by (simp add: load_config_def node_at_def split_path_def world_with_config_def world0_def
        colab_sample_def yaml_sample_def)
  have b2: "map_of ?kvs2 (PStr ''paths'') = None"
    by simp
  have b2': "map_of ?kvs2 (PStr ''paths'') = None \<and> ([] :: (pyval \<times> pyval) list) = [] \<or>
             map_of ?kvs2 (PStr ''paths'') = Some (PDict [])"
    by simp
  have b3: "(case map_of ([] :: (pyval \<times> pyval) list) (PStr ''checkpoints'') of
               None \<Rightarrow> PStr ''checkpoints'' | Some v \<Rightarrow> v) = PStr ''checkpoints''"
    and b4: "(case map_of ([] :: (pyval \<times> pyval) list) (PStr ''logs'') of
               None \<Rightarrow> PStr ''logs'' | Some v \<Rightarrow> v) = PStr ''logs''"
    by simp_all
  have b5: "creatable ?v ''checkpoints''" and b6: "creatable ?v ''logs''"
    by (simp_all add: creatable_def split_path_def node_at_def is_file_def
        world_with_config_def world0_def)
  from main_creates_both_directories [OF b1 b2' b3 b4 b5 b6, of env_sample]
  obtain g v1 where v1:
    "is_dir v1 ''checkpoints''" "is_dir v1 ''logs''"
    "main env_sample colab_sample ''cfg.yaml'' ?v = (Exit 3, emit (Log ERROR no_train_message []) v1)"
    by (auto simp add: env_sample_def)
  have dirs2: "is_dir (emit (Log ERROR no_train_message []) v1) ''checkpoints''"
    "is_dir (emit (Log ERROR no_train_message []) v1) ''logs''"
    using v1(1,2) by (simp_all add: is_dir_def emit_def)
  show ?thesis
    using a1 a2 a5 a6 a7 tr dirs b2 dirs2 by (simp add: w1(4) v1(3))
qed

text \<open>
  Claim C7 as stated fails where a regular file named \<open>checkpoints\<close> is in the way:
  \<open>os.makedirs\<close> raises \<open>FileExistsError\<close>, \<open>main\<close> ends with it, and neither directory
  exists afterwards. It fails too at \<open>paths:\<close> with no value: \<open>paths\<close> is \<open>None\<close>, line 56
  raises \<open>AttributeError\<close>, and no directory is created.
\<close>

theorem main_blocked_directory_raises:
  "fst (main env_sample colab_sample ''cfg.yaml''
          (world_with_entries [([''cfg.yaml''], File ''seed: 42''), ([''checkpoints''], File [])])) =
     Raised FileExistsError \<and>
   fs (snd (main env_sample colab_sample ''cfg.yaml''
          (world_with_entries [([''cfg.yaml''], File ''seed: 42''), ([''checkpoints''], File [])])))
      [''checkpoints''] = Some (File []) \<and>
   fs (snd (main env_sample colab_sample ''cfg.yaml''
          (world_with_entries [([''cfg.yaml''], File ''seed: 42''), ([''checkpoints''], File [])])))
      [''logs''] = None \<and>
   load_config (yaml colab_sample) ''cfg.yaml'' (world_with_config ''paths:'') =
     Inr (PDict [(PStr ''paths'', PNone)]) \<and>
   fst (main env_sample colab_sample ''cfg.yaml'' (world_with_config ''paths:'')) =
     Raised AttributeError \<and>
   fs (snd (main env_sample colab_sample ''cfg.yaml'' (world_with_config ''paths:'')))
      [''checkpoints''] = None \<and>
   fs (snd (main env_sample colab_sample ''cfg.yaml'' (world_with_config ''paths:'')))
      [''logs''] = None"
  by (simp add: main_def path_exists_def load_config_def node_at_def split_path_def
      seed_step_def py_get_def py_int_def call_set_seed_def set_seed_def numpy_legacy_def
      directories_and_dispatch_def resolve_paths_def make_dirs_def os_makedirs_def emit_def
      Let_def colab_sample_def yaml_sample_def world_with_config_def world_with_entries_def
      world0_def)

end
